theory Spec2Isabelle
  imports Main
begin

section \<open>The page as the handler sees it\<close>

text \<open>
  The contact-form handler of \<^verbatim>\<open>js/web3forms.js\<close> is a class over browser objects. The
  embedding keeps the objects the class reads and writes: the submit button with its two
  optional children, the status region, the form, the hidden token input. A child or an
  element that the page may lack is an \<open>option\<close>, \<open>None\<close> standing for JavaScript's
  \<open>null\<close>.
\<close>

record submit_button =
  disabled :: bool
  btnText :: "string option"     \<comment> \<open>\<open>style.display\<close> of the \<open>.btn-text\<close> child, if there is one\<close>
  btnLoader :: "string option"   \<comment> \<open>\<open>style.display\<close> of the \<open>.btn-loader\<close> child, if there is one\<close>

record status_div =
  textContent :: string
  className :: string
  display :: string

record form_element =
  fieldValues :: "(string \<times> string) list"            \<comment> \<open>current values of the named fields\<close>
  defaultValues :: "(string \<times> string) list"          \<comment> \<open>what \<open>reset()\<close> restores\<close>
  constraints :: "(string \<times> string) list \<Rightarrow> bool"    \<comment> \<open>the validation declared on the form\<close>
  botcheck :: "(bool \<times> bool) option"                 \<comment> \<open>\<open>input[name="botcheck"]\<close>: checked, default\<close>

text \<open>
  A value that is thrown or that rejects a promise: \<open>null\<close>/\<open>undefined\<close>, or an object
  whose \<open>message\<close> is the given string. Reading \<open>.message\<close> of the first is itself a
  \<open>TypeError\<close>.
\<close>

datatype js_error = Nullish | ErrorObject string

definition typeError :: js_error where
  "typeError = ErrorObject ''TypeError''"

text \<open>
  A promise of the environment: it fulfils or rejects after so many milliseconds, or it
  never settles.
\<close>

datatype ('e, 'a) promise = Fulfilled nat 'a | Rejected nat 'e | Never

datatype json_data = JsonNull | JsonObject bool string  \<comment> \<open>truthiness of \<open>success\<close>, \<open>message\<close>\<close>

record response =
  json :: "(string, json_data) promise"

datatype gtag_binding = GtagUndefined | GtagReturns | GtagThrows js_error

text \<open>
  What one submission meets outside the handler: whether the global \<open>grecaptcha\<close> is
  defined at the k-th readiness check, what \<open>grecaptcha.ready\<close> followed by
  \<open>grecaptcha.execute\<close> comes to, what \<open>fetch\<close> comes to, and the global \<open>gtag\<close>.
  The browser rejects \<open>fetch\<close> and \<open>response.json()\<close> with error objects only, so these
  carry the message; the provider's promise may reject with anything.
\<close>

record environment =
  grecaptchaDefined :: "nat \<Rightarrow> bool"
  execute :: "(js_error, string) promise"
  fetch :: "(string, response) promise"
  gtag :: gtag_binding

datatype callback = HideStatus | CheckRecaptcha

datatype effect =
    PreventDefault
  | AppendScript string
  | AddSubmitListener
  | Fetch string string "(string \<times> string) list"   \<comment> \<open>url, method, body\<close>
  | Gtag string string "(string \<times> string) list"
  | ConsoleLog string
  | ConsoleWarn string
  | ConsoleError string

text \<open>
  The handler's fields (\<open>form\<close>, \<open>recaptchaSiteKey\<close>, \<open>submitButton\<close>, \<open>statusDiv\<close>)
  hold the elements themselves, as the JavaScript references do; \<open>recaptchaResponse\<close> is
  the value of the element that \<open>document.getElementById('recaptchaResponse')\<close> finds.
  \<open>timers\<close> are the pending timeouts with the milliseconds left, \<open>clock\<close> the time in
  milliseconds, \<open>effects\<close> the calls that leave the page, oldest first.
\<close>

record state =
  form :: "form_element option"
  recaptchaSiteKey :: string
  submitButton :: "submit_button option"
  statusDiv :: "status_div option"
  recaptchaResponse :: "string option"
  timers :: "(nat \<times> callback) list"
  clock :: nat
  effects :: "effect list"

datatype completion = Returned | Threw js_error | Hung

datatype progress = Awaiting | Finished completion

section \<open>Browser operations\<close>

definition emit :: "effect \<Rightarrow> state \<Rightarrow> state" where
  "emit e s = s\<lparr>effects := effects s @ [e]\<rparr>"

definition setTimeout :: "callback \<Rightarrow> nat \<Rightarrow> state \<Rightarrow> state" where
  "setTimeout cb ms s = s\<lparr>timers := timers s @ [(ms, cb)]\<rparr>"

definition checkValidity :: "form_element \<Rightarrow> bool" where
  "checkValidity f = constraints f (fieldValues f)"

definition reset :: "form_element \<Rightarrow> form_element" where
  "reset f = f\<lparr>fieldValues := defaultValues f,
              botcheck := map_option (\<lambda>(c, d). (d, d)) (botcheck f)\<rparr>"

definition honeypotChecked :: "form_element \<Rightarrow> bool" where
  "honeypotChecked f = (case botcheck f of None \<Rightarrow> False | Some (c, d) \<Rightarrow> c)"

text \<open>
  Modelled from the spec: the page markup is not among the sources, so which controls the
  form holds comes from section 6 of the specification: the request body has the form's
  fields, the honeypot field \<open>botcheck\<close> and the injected token field \<open>recaptchaResponse\<close>.
  A checkbox enters a \<open>FormData\<close> only while it is checked.
\<close>

definition FormData :: "form_element \<Rightarrow> string option \<Rightarrow> (string \<times> string) list" where
  "FormData f tokenInput =
     fieldValues f
     @ (if honeypotChecked f then [(''botcheck'', ''on'')] else [])
     @ (case tokenInput of None \<Rightarrow> [] | Some v \<Rightarrow> [(''recaptchaResponse'', v)])"

section \<open>The methods of \<open>Web3FormsHandler\<close>\<close>

definition hideStatus :: "state \<Rightarrow> state" where
  "hideStatus s =
     (case statusDiv s of
        None \<Rightarrow> s
      | Some d \<Rightarrow> s\<lparr>statusDiv := Some (d\<lparr>display := ''none''\<rparr>)\<rparr>)"

definition showStatus :: "string \<Rightarrow> string \<Rightarrow> state \<Rightarrow> state" where
  "showStatus message type s =
     (case statusDiv s of
        None \<Rightarrow> s
      | Some d \<Rightarrow>
          let s1 = s\<lparr>statusDiv := Some (d\<lparr>textContent := message,
                                           className := ''form-status '' @ type,
                                           display := ''block''\<rparr>)\<rparr>
          in if type = ''success'' then setTimeout HideStatus 5000 s1 else s1)"

definition setLoadingState :: "bool \<Rightarrow> state \<Rightarrow> js_error + state" where
  "setLoadingState isLoading s =
     (case submitButton s of
        None \<Rightarrow> Inl typeError
      | Some b \<Rightarrow>
          Inr (s\<lparr>submitButton := Some
                 (if isLoading
                  then b\<lparr>disabled := True,
                         btnText := map_option (\<lambda>_. ''none'') (btnText b),
                         btnLoader := map_option (\<lambda>_. ''inline-block'') (btnLoader b)\<rparr>
                  else b\<lparr>disabled := False,
                         btnText := map_option (\<lambda>_. ''inline'') (btnText b),
                         btnLoader := map_option (\<lambda>_. ''none'') (btnLoader b)\<rparr>)\<rparr>))"

text \<open>
  The runtime's side of \<open>setTimeout\<close>: when a timeout expires its callback runs. The
  callback of a status timeout is \<open>hideStatus\<close>; the callback of a readiness poll is the
  next round of the loop in \<open>checkRecaptcha\<close> below, which continues by itself.
\<close>

fun fire :: "nat \<times> callback \<Rightarrow> state \<Rightarrow> state" where
  "fire (t, HideStatus) s = hideStatus s"
| "fire (t, CheckRecaptcha) s = s"

definition elapse :: "nat \<Rightarrow> state \<Rightarrow> state" where
  "elapse ms s =
     fold fire (sort_key fst (filter (\<lambda>(t, cb). t \<le> ms) (timers s)))
       (s\<lparr>timers := map (\<lambda>(t, cb). (t - ms, cb)) (filter (\<lambda>(t, cb). \<not> t \<le> ms) (timers s)),
          clock := clock s + ms\<rparr>)"

definition validationMessage :: string where
  "validationMessage = ''Please fill in all required fields.''"

definition honeypotMessage :: string where
  "honeypotMessage = ''Thank you! Your message has been sent.''"

definition successMessage :: string where
  "successMessage = ''Thank you! Your message has been sent successfully.''"

definition errorMessage :: string where
  "errorMessage =
     ''Sorry, there was an error sending your message. Please try again or email us directly.''"

definition maxAttempts :: nat where
  "maxAttempts = 20"

text \<open>
  The \<open>finally\<close> block of \<open>handleSubmit\<close> (lines 102 to 104), given the error that the
  \<open>catch\<close> block left pending, if any.
\<close>

definition finallyBlock :: "js_error option \<Rightarrow> state \<Rightarrow> completion \<times> state" where
  "finallyBlock pending s =
     (case setLoadingState False s of
        Inl e \<Rightarrow> (Threw e, s)
      | Inr s' \<Rightarrow> (case pending of None \<Rightarrow> (Returned, s') | Some e \<Rightarrow> (Threw e, s')))"

text \<open>
  The \<open>catch\<close> block (lines 91 to 101) followed by \<open>finally\<close>. Line 93 reads
  \<open>error.message\<close> before the status is set, so a \<open>null\<close> or \<open>undefined\<close> error throws
  there and the rest of the block is skipped.
\<close>

definition catchBlock :: "js_error \<Rightarrow> state \<Rightarrow> completion \<times> state" where
  "catchBlock error s =
     (let s1 = emit (ConsoleError ''Form submission error:'') s in
      case error of
        Nullish \<Rightarrow> finallyBlock (Some typeError) s1
      | ErrorObject msg \<Rightarrow>
          let s2 = emit (ConsoleError ''Error details:'') s1;
              s3 = showStatus errorMessage ''error'' s2;
              s4 = (if msg \<noteq> [] then emit (ConsoleError ''Error message:'') s3 else s3)
          in finallyBlock None s4)"

definition formReset :: "state \<Rightarrow> js_error + state" where
  "formReset s =
     (case form s of
        None \<Rightarrow> Inl typeError
      | Some f \<Rightarrow> Inr (s\<lparr>form := Some (reset f)\<rparr>))"

text \<open>Lines 76 to 89, once \<open>response.json()\<close> has produced \<open>data\<close>.\<close>

definition afterJson :: "gtag_binding \<Rightarrow> json_data \<Rightarrow> state \<Rightarrow> completion \<times> state" where
  "afterJson g data s =
     (case data of
        JsonNull \<Rightarrow> catchBlock typeError s
      | JsonObject success message \<Rightarrow>
          if success then
            (let s1 = showStatus successMessage ''success'' s in
             case formReset s1 of
               Inl e \<Rightarrow> catchBlock e s1
             | Inr s2 \<Rightarrow>
                 (case g of
                    GtagUndefined \<Rightarrow> finallyBlock None s2
                  | GtagReturns \<Rightarrow>
                      finallyBlock None
                        (emit (Gtag ''event'' ''form_submit''
                                 [(''event_category'', ''Contact Form''),
                                  (''event_label'', ''Success'')]) s2)
                  | GtagThrows e \<Rightarrow> catchBlock e s2))
          else catchBlock (ErrorObject (if message \<noteq> [] then message
                                        else ''Submission failed'')) s)"

text \<open>Line 74: the wait for \<open>response.json()\<close>.\<close>

definition awaitJson :: "environment \<Rightarrow> response \<Rightarrow> state \<Rightarrow> completion \<times> state" where
  "awaitJson env r s =
     (case json r of
        Never \<Rightarrow> (Hung, s)
      | Rejected ms msg \<Rightarrow> catchBlock (ErrorObject msg) (elapse ms s)
      | Fulfilled ms data \<Rightarrow> afterJson (gtag env) data (elapse ms s))"

text \<open>Lines 69 to 72: the wait for \<open>fetch\<close>.\<close>

definition awaitFetch :: "environment \<Rightarrow> state \<Rightarrow> completion \<times> state" where
  "awaitFetch env s =
     (case fetch env of
        Never \<Rightarrow> (Hung, s)
      | Rejected ms msg \<Rightarrow> catchBlock (ErrorObject msg) (elapse ms s)
      | Fulfilled ms r \<Rightarrow> awaitJson env r (elapse ms s))"

text \<open>
  Lines 65 to 72, once the token is there: the token goes into the hidden input, the form
  data is collected and the request leaves. Without the hidden input line 65 throws.
\<close>

definition afterToken :: "string \<Rightarrow> state \<Rightarrow> progress \<times> state" where
  "afterToken token s =
     (case recaptchaResponse s of
        None \<Rightarrow> (case catchBlock typeError s of (c, s') \<Rightarrow> (Finished c, s'))
      | Some old \<Rightarrow>
          let s1 = s\<lparr>recaptchaResponse := Some token\<rparr> in
          (case form s1 of
             None \<Rightarrow> (case catchBlock typeError s1 of (c, s') \<Rightarrow> (Finished c, s'))
           | Some f \<Rightarrow>
               (Awaiting,
                emit (Fetch ''https://api.web3forms.com/submit'' ''POST''
                        (FormData f (recaptchaResponse s1))) s1)))"

text \<open>
  \<open>getRecaptchaToken\<close> (lines 107 to 137), with the wait for its promise: the result is
  how the promise settles and the page at that moment. The argument \<open>attempts\<close> is the
  local counter, which is also the number of the readiness check.
\<close>

datatype token_result = Token string | TokenRejected js_error | TokenPending

function checkRecaptcha :: "environment \<Rightarrow> nat \<Rightarrow> state \<Rightarrow> token_result \<times> state" where
  "checkRecaptcha env attempts s =
     (if grecaptchaDefined env attempts then
        (let s1 = emit (ConsoleLog ''reCAPTCHA loaded successfully'') s in
         case execute env of
           Never \<Rightarrow> (TokenPending, s1)
         | Rejected ms e \<Rightarrow> (TokenRejected e, elapse ms s1)
         | Fulfilled ms token \<Rightarrow>
             (Token token, emit (ConsoleLog ''reCAPTCHA token received'') (elapse ms s1)))
      else if attempts + 1 < maxAttempts then
        checkRecaptcha env (attempts + 1) (elapse 500 (setTimeout CheckRecaptcha 500 s))
      else
        (Token [], emit (ConsoleWarn ''reCAPTCHA failed to load, continuing without it'') s))"
  by pat_completeness auto
termination
  by (relation "measure (\<lambda>(env, attempts, s). maxAttempts - attempts)") auto

definition getRecaptchaToken :: "environment \<Rightarrow> state \<Rightarrow> token_result \<times> state" where
  "getRecaptchaToken env s = checkRecaptcha env 0 s"

text \<open>Lines 62 to 104: the \<open>try\<close> statement.\<close>

definition tryBlock :: "environment \<Rightarrow> state \<Rightarrow> completion \<times> state" where
  "tryBlock env s =
     (case getRecaptchaToken env s of
        (TokenPending, s1) \<Rightarrow> (Hung, s1)
      | (TokenRejected e, s1) \<Rightarrow> catchBlock e s1
      | (Token token, s1) \<Rightarrow>
          (case afterToken token s1 of
             (Finished c, s2) \<Rightarrow> (c, s2)
           | (Awaiting, s2) \<Rightarrow> awaitFetch env s2))"

text \<open>
  Lines 41 to 60: the synchronous start of \<open>handleSubmit\<close>, up to the \<open>try\<close>. It ends the
  call (validation failure, honeypot, or a \<open>TypeError\<close> where \<open>this.form\<close> or
  \<open>this.submitButton\<close> is \<open>null\<close>) or leaves the handler in the loading state.
\<close>

definition enter :: "state \<Rightarrow> progress \<times> state" where
  "enter s0 =
     (let s = emit PreventDefault s0 in
      case form s of
        None \<Rightarrow> (Finished (Threw typeError), s)
      | Some f \<Rightarrow>
          if \<not> checkValidity f then
            (Finished Returned, showStatus validationMessage ''error'' s)
          else if honeypotChecked f then
            (Finished Returned,
             (showStatus honeypotMessage ''success'' s)\<lparr>form := Some (reset f)\<rparr>)
          else
            (case setLoadingState True s of
               Inl e \<Rightarrow> (Finished (Threw e), s)
             | Inr s1 \<Rightarrow> (Awaiting, hideStatus s1)))"

definition handleSubmit :: "environment \<Rightarrow> state \<Rightarrow> completion \<times> state" where
  "handleSubmit env s =
     (case enter s of
        (Finished c, s1) \<Rightarrow> (c, s1)
      | (Awaiting, s1) \<Rightarrow> tryBlock env s1)"

subsection \<open>Construction\<close>

text \<open>
  What the constructor reads from the document: the element with the given id together
  with the first \<open>button[type="submit"]\<close> inside it, the element with id \<open>formStatus\<close>,
  and the hidden token input.
\<close>

record document =
  formsById :: "string \<Rightarrow> (form_element \<times> submit_button option) option"
  formStatus :: "status_div option"
  recaptchaInput :: "string option"

definition loadRecaptcha :: "state \<Rightarrow> state" where
  "loadRecaptcha s =
     emit (AppendScript (''https://www.google.com/recaptcha/api.js?render=''
                         @ recaptchaSiteKey s)) s"

definition init :: "document \<Rightarrow> string \<Rightarrow> state \<Rightarrow> state" where
  "init doc formId s =
     emit AddSubmitListener
       (loadRecaptcha
          (s\<lparr>submitButton := (case formsById doc formId of
                                None \<Rightarrow> None
                              | Some (f, b) \<Rightarrow> b),
             statusDiv := formStatus doc\<rparr>))"

definition Web3FormsHandler :: "document \<Rightarrow> string \<Rightarrow> string \<Rightarrow> state" where
  "Web3FormsHandler doc formId siteKey =
     (let s = \<lparr>form = map_option fst (formsById doc formId),
                recaptchaSiteKey = siteKey,
                submitButton = None,
                statusDiv = None,
                recaptchaResponse = recaptchaInput doc,
                timers = [],
                clock = 0,
                effects = []\<rparr>
      in if form s \<noteq> None then init doc formId s else s)"

section \<open>Several submissions on one page\<close>

text \<open>
  \<open>handleSubmit\<close> is an \<open>async\<close> function: between its awaits the event loop may run
  anything else, another submit event included. A configuration is the page together with
  the attempts that are suspended at an await, each in its phase. A step is one task of
  the event loop: a submit event, the settling of a promise that a suspended attempt
  awaits, a wait of the readiness poll or a line it writes to the console, time passing
  with the timeouts that run out, the user editing the fields. The parts of
  \<open>handleSubmit\<close> between the awaits are the definitions above.

  A submit event that comes through the user interface needs the submit control enabled:
  the button the handler holds is taken to be the one submit control of the form, and a
  browser does not submit a form through its disabled submit button, by a click or by the
  Enter key. Events that a script dispatches are not steps of this system.
\<close>

datatype phase = AwaitingToken | AwaitingFetch | AwaitingJson

definition uiCanSubmit :: "state \<Rightarrow> bool" where
  "uiCanSubmit s = (case submitButton s of None \<Rightarrow> True | Some b \<Rightarrow> \<not> disabled b)"

inductive step :: "state \<times> phase list \<Rightarrow> state \<times> phase list \<Rightarrow> bool" where
  submit_finishes:
    "uiCanSubmit s \<Longrightarrow> enter s = (Finished c, s') \<Longrightarrow> step (s, ps) (s', ps)"
| submit_suspends:
    "uiCanSubmit s \<Longrightarrow> enter s = (Awaiting, s') \<Longrightarrow> step (s, ps) (s', ps @ [AwaitingToken])"
| poll_waits:
    "AwaitingToken \<in> set ps \<Longrightarrow>
     step (s, ps) (elapse 500 (setTimeout CheckRecaptcha 500 s), ps)"
| console_log:
    "step (s, ps) (emit (ConsoleLog text) s, ps)"
| console_warn:
    "step (s, ps) (emit (ConsoleWarn text) s, ps)"
| token_rejected:
    "i < length ps \<Longrightarrow> ps ! i = AwaitingToken \<Longrightarrow> catchBlock e s = (c, s') \<Longrightarrow>
     step (s, ps) (s', take i ps @ drop (Suc i) ps)"
| token_finishes:
    "i < length ps \<Longrightarrow> ps ! i = AwaitingToken \<Longrightarrow> afterToken token s = (Finished c, s') \<Longrightarrow>
     step (s, ps) (s', take i ps @ drop (Suc i) ps)"
| token_dispatches:
    "i < length ps \<Longrightarrow> ps ! i = AwaitingToken \<Longrightarrow> afterToken token s = (Awaiting, s') \<Longrightarrow>
     step (s, ps) (s', ps[i := AwaitingFetch])"
| fetch_rejected:
    "i < length ps \<Longrightarrow> ps ! i = AwaitingFetch \<Longrightarrow> catchBlock (ErrorObject msg) s = (c, s') \<Longrightarrow>
     step (s, ps) (s', take i ps @ drop (Suc i) ps)"
| fetch_fulfilled:
    "i < length ps \<Longrightarrow> ps ! i = AwaitingFetch \<Longrightarrow> step (s, ps) (s, ps[i := AwaitingJson])"
| json_rejected:
    "i < length ps \<Longrightarrow> ps ! i = AwaitingJson \<Longrightarrow> catchBlock (ErrorObject msg) s = (c, s') \<Longrightarrow>
     step (s, ps) (s', take i ps @ drop (Suc i) ps)"
| json_fulfilled:
    "i < length ps \<Longrightarrow> ps ! i = AwaitingJson \<Longrightarrow> afterJson g data s = (c, s') \<Longrightarrow>
     step (s, ps) (s', take i ps @ drop (Suc i) ps)"
| time_passes:
    "step (s, ps) (elapse ms s, ps)"
| user_edits:
    "form s = Some f \<Longrightarrow>
     step (s, ps)
       (s\<lparr>form := Some (f\<lparr>fieldValues := vs,
                            botcheck := map_option (\<lambda>(c, d). (tick, d)) (botcheck f)\<rparr>)\<rparr>, ps)"

section \<open>Vocabulary of the properties\<close>

text \<open>What the status region looks like once \<open>showStatus\<close> has written to it.\<close>

definition shown :: "string \<Rightarrow> string \<Rightarrow> status_div \<Rightarrow> status_div" where
  "shown message type d =
     d\<lparr>textContent := message, className := ''form-status '' @ type, display := ''block''\<rparr>"

text \<open>
  The enabled, non-loading look of the submit control: the button enabled, and its label
  and spinner, where it has them, as \<open>setLoadingState(false)\<close> leaves them.
\<close>

definition nonLoading :: "submit_button \<Rightarrow> bool" where
  "nonLoading b \<longleftrightarrow>
     \<not> disabled b
     \<and> (case btnText b of None \<Rightarrow> True | Some v \<Rightarrow> v = ''inline'')
     \<and> (case btnLoader b of None \<Rightarrow> True | Some v \<Rightarrow> v = ''none'')"

text \<open>The requests that have left the page.\<close>

fun isFetch :: "effect \<Rightarrow> bool" where
  "isFetch (Fetch url method body) = True"
| "isFetch e = False"

definition requests :: "state \<Rightarrow> effect list" where
  "requests s = filter isFetch (effects s)"

text \<open>The submit control exists and has the enabled, non-loading look.\<close>

definition idleControl :: "state \<Rightarrow> bool" where
  "idleControl s = (case submitButton s of None \<Rightarrow> False | Some b \<Rightarrow> nonLoading b)"

text \<open>
  The request fails, or the body of the response does not parse, or the parsed data
  carries no truthy \<open>success\<close>.
\<close>

definition apiFails :: "environment \<Rightarrow> bool" where
  "apiFails env =
     (case fetch env of
        Never \<Rightarrow> False
      | Rejected ms msg \<Rightarrow> True
      | Fulfilled ms r \<Rightarrow>
          (case json r of
             Never \<Rightarrow> False
           | Rejected ms' msg \<Rightarrow> True
           | Fulfilled ms' data \<Rightarrow>
               (case data of JsonNull \<Rightarrow> True | JsonObject success message \<Rightarrow> \<not> success)))"

text \<open>One wait of the readiness poll: the timeout is set and runs out.\<close>

definition pollWait :: "state \<Rightarrow> state" where
  "pollWait s = elapse 500 (setTimeout CheckRecaptcha 500 s)"

section \<open>A page and an environment to evaluate on\<close>

definition exampleForm :: form_element where
  "exampleForm =
     \<lparr>fieldValues = [(''name'', ''Ada''), (''email'', ''ada@example.org''), (''message'', ''Hello'')],
      defaultValues = [(''name'', []), (''email'', []), (''message'', [])],
      constraints = list_all (\<lambda>(n, v). v \<noteq> []),
      botcheck = Some (False, False)\<rparr>"

definition exampleButton :: submit_button where
  "exampleButton = \<lparr>disabled = False, btnText = Some [], btnLoader = Some []\<rparr>"

definition exampleStatus :: status_div where
  "exampleStatus = \<lparr>textContent = [], className = ''form-status'', display = ''none''\<rparr>"

definition examplePage :: document where
  "examplePage =
     \<lparr>formsById = (\<lambda>i. if i = ''contactForm'' then Some (exampleForm, Some exampleButton) else None),
      formStatus = Some exampleStatus,
      recaptchaInput = Some []\<rparr>"

definition exampleHandler :: state where
  "exampleHandler = Web3FormsHandler examplePage ''contactForm'' ''site-key''"

definition readyEnv :: environment where
  "readyEnv =
     \<lparr>grecaptchaDefined = (\<lambda>k. True),
      execute = Fulfilled 120 ''tok'',
      fetch = Fulfilled 300 \<lparr>json = Fulfilled 5 (JsonObject True ''ok'')\<rparr>,
      gtag = GtagUndefined\<rparr>"

definition botForm :: form_element where
  "botForm = exampleForm\<lparr>botcheck := Some (True, False)\<rparr>"

definition blankForm :: form_element where
  "blankForm = exampleForm\<lparr>fieldValues := [(''name'', ''Ada''), (''email'', []), (''message'', ''Hello'')]\<rparr>"

definition silentEnv :: environment where
  "silentEnv = readyEnv\<lparr>fetch := Never\<rparr>"

definition failingEnv :: environment where
  "failingEnv = readyEnv\<lparr>fetch := Rejected 40 ''Failed to fetch''\<rparr>"

definition neverReadyEnv :: environment where
  "neverReadyEnv = readyEnv\<lparr>grecaptchaDefined := (\<lambda>k. False)\<rparr>"

definition stalledEnv :: environment where
  "stalledEnv = readyEnv\<lparr>execute := Never\<rparr>"

definition nullRejectEnv :: environment where
  "nullRejectEnv = readyEnv\<lparr>execute := Rejected 30 Nullish\<rparr>"

definition gtagReturnsEnv :: environment where
  "gtagReturnsEnv = readyEnv\<lparr>gtag := GtagReturns\<rparr>"

definition gtagThrowsEnv :: environment where
  "gtagThrowsEnv = readyEnv\<lparr>gtag := GtagThrows (ErrorObject ''gtag is not a function'')\<rparr>"

section \<open>What each operation leaves alone\<close>

lemma emit_fields [simp]:
  "form (emit e s) = form s" "submitButton (emit e s) = submitButton s"
  "statusDiv (emit e s) = statusDiv s" "recaptchaResponse (emit e s) = recaptchaResponse s"
  "timers (emit e s) = timers s" "clock (emit e s) = clock s"
  "recaptchaSiteKey (emit e s) = recaptchaSiteKey s"
  "effects (emit e s) = effects s @ [e]"
  by (simp_all add: emit_def)

lemma setTimeout_fields [simp]:
  "form (setTimeout cb ms s) = form s" "submitButton (setTimeout cb ms s) = submitButton s"
  "statusDiv (setTimeout cb ms s) = statusDiv s"
  "recaptchaResponse (setTimeout cb ms s) = recaptchaResponse s"
  "timers (setTimeout cb ms s) = timers s @ [(ms, cb)]" "clock (setTimeout cb ms s) = clock s"
  "recaptchaSiteKey (setTimeout cb ms s) = recaptchaSiteKey s"
  "effects (setTimeout cb ms s) = effects s"
  by (simp_all add: setTimeout_def)

lemma hideStatus_fields [simp]:
  "form (hideStatus s) = form s" "submitButton (hideStatus s) = submitButton s"
  "recaptchaResponse (hideStatus s) = recaptchaResponse s"
  "timers (hideStatus s) = timers s" "clock (hideStatus s) = clock s"
  "recaptchaSiteKey (hideStatus s) = recaptchaSiteKey s"
  "effects (hideStatus s) = effects s"
  "statusDiv (hideStatus s) = map_option (\<lambda>d. d\<lparr>display := ''none''\<rparr>) (statusDiv s)"
  by (simp_all add: hideStatus_def split: option.splits)

lemma showStatus_fields [simp]:
  "form (showStatus m k s) = form s" "submitButton (showStatus m k s) = submitButton s"
  "recaptchaResponse (showStatus m k s) = recaptchaResponse s"
  "clock (showStatus m k s) = clock s"
  "recaptchaSiteKey (showStatus m k s) = recaptchaSiteKey s"
  "effects (showStatus m k s) = effects s"
  "statusDiv (showStatus m k s) = map_option (shown m k) (statusDiv s)"
  by (simp_all add: showStatus_def shown_def Let_def split: option.splits)

lemma showStatus_timers:
  "timers (showStatus m k s) =
     (if statusDiv s \<noteq> None \<and> k = ''success'' then timers s @ [(5000, HideStatus)] else timers s)"
  by (simp add: showStatus_def Let_def split: option.splits)

lemma fire_fields [simp]:
  "form (fire tc s) = form s" "submitButton (fire tc s) = submitButton s"
  "recaptchaResponse (fire tc s) = recaptchaResponse s"
  "timers (fire tc s) = timers s" "clock (fire tc s) = clock s"
  "recaptchaSiteKey (fire tc s) = recaptchaSiteKey s"
  "effects (fire tc s) = effects s"
  by (cases tc; cases "snd tc"; simp)+

lemma fold_fire_fields [simp]:
  "form (fold fire ts s) = form s" "submitButton (fold fire ts s) = submitButton s"
  "recaptchaResponse (fold fire ts s) = recaptchaResponse s"
  "timers (fold fire ts s) = timers s" "clock (fold fire ts s) = clock s"
  "recaptchaSiteKey (fold fire ts s) = recaptchaSiteKey s"
  "effects (fold fire ts s) = effects s"
  by (induction ts arbitrary: s; simp)+

lemma fold_fire_statusDiv:
  "statusDiv (fold fire ts s) =
     (if HideStatus \<in> snd ` set ts
      then map_option (\<lambda>d. d\<lparr>display := ''none''\<rparr>) (statusDiv s) else statusDiv s)"
proof (induction ts arbitrary: s)
  case Nil
  then show ?case by simp
next
  case (Cons tc ts)
  obtain t c where tc: "tc = (t, c)" by (cases tc)
  show ?case
    by (cases c) (auto simp: tc Cons.IH option.map_comp comp_def)
qed

lemma elapse_fields [simp]:
  "form (elapse ms s) = form s" "submitButton (elapse ms s) = submitButton s"
  "recaptchaResponse (elapse ms s) = recaptchaResponse s"
  "clock (elapse ms s) = clock s + ms"
  "recaptchaSiteKey (elapse ms s) = recaptchaSiteKey s"
  "effects (elapse ms s) = effects s"
  by (simp_all add: elapse_def)

lemma elapse_statusDiv:
  "statusDiv (elapse ms s) =
     (if \<exists>t \<le> ms. (t, HideStatus) \<in> set (timers s)
      then map_option (\<lambda>d. d\<lparr>display := ''none''\<rparr>) (statusDiv s) else statusDiv s)"
proof -
  have "HideStatus \<in> snd ` set (sort_key fst (filter (\<lambda>(t, cb). t \<le> ms) (timers s)))
        \<longleftrightarrow> (\<exists>t \<le> ms. (t, HideStatus) \<in> set (timers s))"
    by (auto simp: image_iff)
  then show ?thesis
    unfolding elapse_def fold_fire_statusDiv by auto
qed

lemma elapse_statusDiv_None [simp]:
  "statusDiv (elapse ms s) = None \<longleftrightarrow> statusDiv s = None"
  by (simp add: elapse_statusDiv)


lemma exampleHandler_eq:
  "exampleHandler =
     \<lparr>form = Some exampleForm, recaptchaSiteKey = ''site-key'',
      submitButton = Some exampleButton, statusDiv = Some exampleStatus,
      recaptchaResponse = Some [], timers = [], clock = 0,
      effects = [AppendScript ''https://www.google.com/recaptcha/api.js?render=site-key'',
                 AddSubmitListener]\<rparr>"
  by (simp add: exampleHandler_def Web3FormsHandler_def init_def loadRecaptcha_def emit_def
      examplePage_def)

lemma example_validity:
  "checkValidity exampleForm" "checkValidity botForm" "\<not> checkValidity blankForm"
  by (simp_all add: checkValidity_def exampleForm_def botForm_def blankForm_def)

lemma example_honeypot:
  "\<not> honeypotChecked exampleForm" "botcheck botForm = Some (True, False)"
  "\<not> honeypotChecked blankForm"
  by (simp_all add: honeypotChecked_def exampleForm_def botForm_def blankForm_def)

section \<open>The parts of \<open>handleSubmit\<close>, one by one\<close>

declare checkRecaptcha.simps [simp del]

lemma setLoadingState_None [simp]:
  "setLoadingState l s = Inl e \<longleftrightarrow> submitButton s = None \<and> e = typeError"
  by (auto simp: setLoadingState_def split: option.splits)

lemma setLoadingState_Inr:
  "setLoadingState l s = Inr s' \<Longrightarrow>
     form s' = form s \<and> statusDiv s' = statusDiv s \<and> recaptchaResponse s' = recaptchaResponse s
     \<and> effects s' = effects s \<and> timers s' = timers s \<and> clock s' = clock s"
  by (auto simp: setLoadingState_def split: option.splits)

lemma setLoadingState_False:
  "setLoadingState False s = Inr s' \<Longrightarrow> idleControl s'"
  by (auto simp: setLoadingState_def idleControl_def nonLoading_def split: option.splits)

lemma setLoadingState_True:
  "setLoadingState True s = Inr s' \<Longrightarrow> \<exists>b. submitButton s' = Some b \<and> disabled b"
  by (auto simp: setLoadingState_def split: option.splits)

lemma finallyBlock_fields:
  "form (snd (finallyBlock p s)) = form s"
  "statusDiv (snd (finallyBlock p s)) = statusDiv s"
  "recaptchaResponse (snd (finallyBlock p s)) = recaptchaResponse s"
  "effects (snd (finallyBlock p s)) = effects s"
  "fst (finallyBlock p s) \<noteq> Hung"
  by (auto simp: finallyBlock_def dest: setLoadingState_Inr split: sum.splits option.splits)

lemma finallyBlock_button_None [simp]:
  "submitButton (snd (finallyBlock p s)) = None \<longleftrightarrow> submitButton s = None"
  by (auto simp: finallyBlock_def setLoadingState_def split: sum.splits option.splits)

lemma finallyBlock_control:
  "submitButton s \<noteq> None \<Longrightarrow> idleControl (snd (finallyBlock p s))"
  by (auto simp: finallyBlock_def dest: setLoadingState_False split: sum.splits option.splits)

lemma finallyBlock_completion:
  "submitButton s \<noteq> None \<Longrightarrow>
   fst (finallyBlock p s) = (case p of None \<Rightarrow> Returned | Some e \<Rightarrow> Threw e)"
  by (auto simp: finallyBlock_def split: sum.splits option.splits)

lemma catchBlock_fields:
  "form (snd (catchBlock e s)) = form s"
  "recaptchaResponse (snd (catchBlock e s)) = recaptchaResponse s"
  "requests (snd (catchBlock e s)) = requests s"
  "fst (catchBlock e s) \<noteq> Hung"
  by (cases e; simp add: catchBlock_def Let_def finallyBlock_fields requests_def)+

lemma catchBlock_button_None [simp]:
  "submitButton (snd (catchBlock e s)) = None \<longleftrightarrow> submitButton s = None"
  by (cases e) (simp_all add: catchBlock_def Let_def)

lemma catchBlock_control:
  "submitButton s \<noteq> None \<Longrightarrow> idleControl (snd (catchBlock e s))"
  by (cases e) (simp_all add: catchBlock_def Let_def finallyBlock_control)

lemma catchBlock_ErrorObject:
  "statusDiv (snd (catchBlock (ErrorObject m) s)) =
     map_option (shown errorMessage ''error'') (statusDiv s)"
  "submitButton s \<noteq> None \<Longrightarrow> fst (catchBlock (ErrorObject m) s) = Returned"
  by (simp_all add: catchBlock_def Let_def finallyBlock_fields finallyBlock_completion)

lemma catchBlock_typeError:
  "statusDiv (snd (catchBlock typeError s)) =
     map_option (shown errorMessage ''error'') (statusDiv s)"
  "submitButton s \<noteq> None \<Longrightarrow> fst (catchBlock typeError s) = Returned"
  by (simp_all add: typeError_def catchBlock_ErrorObject)


lemma shown_display [simp]: "shown m k (d\<lparr>display := x\<rparr>) = shown m k d"
  by (simp add: shown_def)

lemma shown_elapse [simp]:
  "map_option (shown m k) (statusDiv (elapse ms s)) = map_option (shown m k) (statusDiv s)"
  by (simp add: elapse_statusDiv option.map_comp comp_def)

lemma requests_fields [simp]:
  "requests (showStatus m k s) = requests s" "requests (hideStatus s) = requests s"
  "requests (elapse ms s) = requests s" "requests (setTimeout cb ms s) = requests s"
  "requests (emit (ConsoleLog x) s) = requests s" "requests (emit (ConsoleWarn x) s) = requests s"
  "requests (emit (ConsoleError x) s) = requests s" "requests (emit (Gtag a b c) s) = requests s"
  "requests (emit PreventDefault s) = requests s"
  "requests (s\<lparr>form := f\<rparr>) = requests s"
  "requests (s\<lparr>recaptchaResponse := r\<rparr>) = requests s"
  "requests (snd (finallyBlock p s)) = requests s"
  by (simp_all add: requests_def finallyBlock_fields)

lemma afterJson_fields:
  "recaptchaResponse (snd (afterJson g data s)) = recaptchaResponse s"
  "requests (snd (afterJson g data s)) = requests s"
  "fst (afterJson g data s) \<noteq> Hung"
  by (auto simp: afterJson_def formReset_def Let_def catchBlock_fields finallyBlock_fields
      split: json_data.splits option.splits gtag_binding.splits)

lemma afterJson_control:
  "submitButton s \<noteq> None \<Longrightarrow> idleControl (snd (afterJson g data s))"
  by (auto simp: afterJson_def formReset_def Let_def catchBlock_control finallyBlock_control
      split: json_data.splits option.splits gtag_binding.splits)

lemma afterJson_failure:
  assumes "data = JsonNull \<or> (\<exists>m. data = JsonObject False m)"
  shows "form (snd (afterJson g data s)) = form s"
    and "statusDiv (snd (afterJson g data s)) =
           map_option (shown errorMessage ''error'') (statusDiv s)"
    and "submitButton s \<noteq> None \<Longrightarrow> fst (afterJson g data s) = Returned"
  using assms
  by (auto simp: afterJson_def catchBlock_fields catchBlock_ErrorObject catchBlock_typeError)

lemma awaitJson_control:
  "submitButton s \<noteq> None \<Longrightarrow> fst (awaitJson env r s) \<noteq> Hung \<Longrightarrow>
   idleControl (snd (awaitJson env r s))"
  by (auto simp: awaitJson_def catchBlock_control afterJson_control split: promise.splits)

lemma awaitFetch_control:
  "submitButton s \<noteq> None \<Longrightarrow> fst (awaitFetch env s) \<noteq> Hung \<Longrightarrow>
   idleControl (snd (awaitFetch env s))"
  by (auto simp: awaitFetch_def catchBlock_control awaitJson_control split: promise.splits)

lemma awaitFetch_failure:
  assumes "apiFails env"
  shows "form (snd (awaitFetch env s)) = form s"
    and "statusDiv (snd (awaitFetch env s)) =
           map_option (shown errorMessage ''error'') (statusDiv s)"
    and "submitButton s \<noteq> None \<Longrightarrow> fst (awaitFetch env s) = Returned"
  using assms
  by (auto simp: apiFails_def awaitFetch_def awaitJson_def catchBlock_fields
      catchBlock_ErrorObject afterJson_failure split: promise.splits json_data.splits)

lemma afterToken_fields [simp]:
  "form (snd (afterToken token s)) = form s"
  "submitButton (snd (afterToken token s)) = None \<longleftrightarrow> submitButton s = None"
  by (simp_all add: afterToken_def Let_def catchBlock_fields split_beta split: option.splits)


lemma checkRecaptcha_frame:
  "form (snd (checkRecaptcha env attempts s)) = form s
   \<and> submitButton (snd (checkRecaptcha env attempts s)) = submitButton s
   \<and> recaptchaResponse (snd (checkRecaptcha env attempts s)) = recaptchaResponse s
   \<and> requests (snd (checkRecaptcha env attempts s)) = requests s
   \<and> map_option (shown m k) (statusDiv (snd (checkRecaptcha env attempts s)))
       = map_option (shown m k) (statusDiv s)"
proof (induction env attempts s rule: checkRecaptcha.induct)
  case (1 env attempts s)
  show ?case
  proof (cases "grecaptchaDefined env attempts")
    case True
    then show ?thesis
      by (subst (1 2 3 4 5) checkRecaptcha.simps) (simp add: Let_def split: promise.splits)
  next
    case False
    show ?thesis
    proof (cases "attempts + 1 < maxAttempts")
      case True
      with False "1.IH" show ?thesis
        by (subst (1 2 3 4 5) checkRecaptcha.simps) simp
    next
      case False
      with \<open>\<not> grecaptchaDefined env attempts\<close> show ?thesis
        by (subst (1 2 3 4 5) checkRecaptcha.simps) simp
    qed
  qed
qed

lemma checkRecaptcha_result:
  "fst (checkRecaptcha env attempts s) = fst (checkRecaptcha env attempts s')"
proof (induction env attempts s arbitrary: s' rule: checkRecaptcha.induct)
  case (1 env attempts s)
  show ?case
  proof (cases "grecaptchaDefined env attempts")
    case True
    then show ?thesis
      by (subst (1 2) checkRecaptcha.simps) (simp add: Let_def split: promise.splits)
  next
    case False
    show ?thesis
    proof (cases "attempts + 1 < maxAttempts")
      case True
      with False "1.IH" [of "elapse 500 (setTimeout CheckRecaptcha 500 s')"] show ?thesis
        by (subst (1 2) checkRecaptcha.simps) simp
    next
      case False
      with \<open>\<not> grecaptchaDefined env attempts\<close> show ?thesis
        by (subst (1 2) checkRecaptcha.simps) simp
    qed
  qed
qed

lemma getRecaptchaToken_frame [simp]:
  "form (snd (getRecaptchaToken env s)) = form s"
  "submitButton (snd (getRecaptchaToken env s)) = submitButton s"
  "recaptchaResponse (snd (getRecaptchaToken env s)) = recaptchaResponse s"
  "requests (snd (getRecaptchaToken env s)) = requests s"
  "map_option (shown m k) (statusDiv (snd (getRecaptchaToken env s)))
     = map_option (shown m k) (statusDiv s)"
  by (simp_all add: getRecaptchaToken_def checkRecaptcha_frame)

lemma getRecaptchaToken_result:
  "fst (getRecaptchaToken env s) = fst (getRecaptchaToken env s')"
  by (simp add: getRecaptchaToken_def checkRecaptcha_result [of env 0 s s'])

lemma tryBlock_control:
  assumes "submitButton s \<noteq> None" and "fst (tryBlock env s) \<noteq> Hung"
  shows "idleControl (snd (tryBlock env s))"
proof -
  obtain r s1 where g: "getRecaptchaToken env s = (r, s1)"
    by (cases "getRecaptchaToken env s")
  have b1: "submitButton s1 \<noteq> None"
    using getRecaptchaToken_frame(2) [of env s] g assms(1) by simp
  show ?thesis
  proof (cases r)
    case (Token token)
    obtain p s2 where a: "afterToken token s1 = (p, s2)"
      by (cases "afterToken token s1")
    have b2: "submitButton s2 \<noteq> None"
      using afterToken_fields(2) [of token s1] a b1 by simp
    show ?thesis
    proof (cases p)
      case Awaiting
      with assms(2) g Token a b2 show ?thesis
        by (simp add: tryBlock_def awaitFetch_control)
    next
      case (Finished c)
      have "idleControl (snd (afterToken token s1))"
        using a Finished b1
        by (auto simp: afterToken_def Let_def split_beta catchBlock_control
            split: option.splits)
      with g Token a Finished show ?thesis
        by (simp add: tryBlock_def)
    qed
  next
    case (TokenRejected e)
    with g b1 show ?thesis
      by (simp add: tryBlock_def catchBlock_control)
  next
    case TokenPending
    with g assms(2) show ?thesis
      by (simp add: tryBlock_def)
  qed
qed

lemma enter_Awaiting:
  "fst (enter s) = Awaiting \<longleftrightarrow>
     (\<exists>f b. form s = Some f \<and> checkValidity f \<and> \<not> honeypotChecked f \<and> submitButton s = Some b)"
  by (auto simp: enter_def Let_def setLoadingState_def split: option.splits)

lemma enter_loading:
  assumes "enter s = (Awaiting, s')"
  shows "\<exists>b. submitButton s' = Some b \<and> disabled b"
    and "form s' = form s" and "recaptchaResponse s' = recaptchaResponse s"
    and "requests s' = requests s"
    and "statusDiv s' = map_option (\<lambda>d. d\<lparr>display := ''none''\<rparr>) (statusDiv s)"
  using assms
  by (auto simp: enter_def Let_def split: option.splits if_splits sum.splits
      dest: setLoadingState_True setLoadingState_Inr simp: requests_def)

lemma enter_finished:
  assumes "enter s = (Finished c, s')"
  shows "submitButton s' = submitButton s" and "requests s' = requests s"
  using assms
  by (auto simp: enter_def Let_def requests_def split: option.splits if_splits sum.splits)

section \<open>Shared facts about a run\<close>

lemma handleSubmit_loading:
  assumes "form s = Some f" and "checkValidity f" and "\<not> honeypotChecked f"
    and "submitButton s = Some b"
  shows "\<exists>s1. enter s = (Awaiting, s1) \<and> handleSubmit env s = tryBlock env s1"
proof -
  from assms have "fst (enter s) = Awaiting"
    by (simp add: enter_Awaiting)
  then obtain s1 where "enter s = (Awaiting, s1)"
    by (cases "enter s") simp
  then show ?thesis
    by (simp add: handleSubmit_def)
qed

lemmas run_defs = handleSubmit_def enter_def tryBlock_def getRecaptchaToken_def
  checkRecaptcha.simps afterToken_def awaitFetch_def awaitJson_def afterJson_def
  catchBlock_def finallyBlock_def formReset_def setLoadingState_def
  exampleHandler_eq Let_def honeypotChecked_def checkValidity_def

lemma example_enter: "fst (enter exampleHandler) = Awaiting"
  by (simp add: enter_Awaiting exampleHandler_eq example_validity example_honeypot)

lemma example_run_returns: "fst (handleSubmit readyEnv exampleHandler) = Returned"
  by (simp add: run_defs readyEnv_def exampleForm_def)

lemma example_token: "fst (getRecaptchaToken readyEnv s) = Token ''tok''"
  by (simp add: getRecaptchaToken_def checkRecaptcha.simps readyEnv_def)

lemma awaitFetch_not_reached:
  assumes "recaptchaResponse s = None"
  shows "requests (snd (tryBlock env s)) = requests s"
proof -
  obtain r s1 where g: "getRecaptchaToken env s = (r, s1)"
    by (cases "getRecaptchaToken env s")
  have n: "recaptchaResponse s1 = None" and q: "requests s1 = requests s"
    using getRecaptchaToken_frame(3,4) [of env s] g assms by simp_all
  show ?thesis
  proof (cases r)
    case (Token token)
    from n have "afterToken token s1 =
                   (Finished (fst (catchBlock typeError s1)), snd (catchBlock typeError s1))"
      by (simp add: afterToken_def split_beta)
    with g Token q show ?thesis
      by (simp add: tryBlock_def catchBlock_fields)
  next
    case (TokenRejected e)
    with g q show ?thesis
      by (simp add: tryBlock_def catchBlock_fields)
  next
    case TokenPending
    with g q show ?thesis
      by (simp add: tryBlock_def)
  qed
qed

lemma afterToken_Awaiting:
  "afterToken token s = (Awaiting, s') \<Longrightarrow> submitButton s' = submitButton s"
  by (auto simp: afterToken_def Let_def split_beta split: option.splits)

section \<open>The honeypot short-circuit\<close>

text \<open>
  Claim C1, as the code has it. When the form passes validation and the honeypot checkbox
  exists and is checked, \<open>handleSubmit\<close> returns in its synchronous part after calling
  \<open>showStatus\<close> with the success message and resetting the form. The only effect is
  \<open>preventDefault\<close>: no request leaves, no token is asked for (the environment is not
  consulted, the clock has not moved, the hidden token input is untouched). The status
  region shows the message where the page has one; \<open>showStatus\<close> does nothing where the
  page has none.
\<close>

theorem honeypot_short_circuit:
  assumes "form s = Some f" and "checkValidity f" and "botcheck f = Some (True, dflt)"
  shows "handleSubmit env s =
           (Returned, (showStatus honeypotMessage ''success'' (emit PreventDefault s))
                        \<lparr>form := Some (reset f)\<rparr>)
       \<and> form (snd (handleSubmit env s)) = Some (reset f)
       \<and> fieldValues (reset f) = defaultValues f
       \<and> effects (snd (handleSubmit env s)) = effects s @ [PreventDefault]
       \<and> clock (snd (handleSubmit env s)) = clock s
       \<and> submitButton (snd (handleSubmit env s)) = submitButton s
       \<and> recaptchaResponse (snd (handleSubmit env s)) = recaptchaResponse s
       \<and> statusDiv (snd (handleSubmit env s)) =
           map_option (shown honeypotMessage ''success'') (statusDiv s)"
  using assms
  by (simp add: handleSubmit_def enter_def honeypotChecked_def reset_def Let_def)

theorem honeypot_short_circuit_witness:
  "form (exampleHandler\<lparr>form := Some botForm\<rparr>) = Some botForm
   \<and> checkValidity botForm
   \<and> botcheck botForm = Some (True, False)
   \<and> form (snd (handleSubmit readyEnv (exampleHandler\<lparr>form := Some botForm\<rparr>)))
       = Some (reset botForm)
   \<and> effects (snd (handleSubmit readyEnv (exampleHandler\<lparr>form := Some botForm\<rparr>)))
       = effects (exampleHandler\<lparr>form := Some botForm\<rparr>) @ [PreventDefault]
   \<and> statusDiv (snd (handleSubmit readyEnv (exampleHandler\<lparr>form := Some botForm\<rparr>)))
       = Some (shown honeypotMessage ''success'' exampleStatus)"
proof -
  have f: "form (exampleHandler\<lparr>form := Some botForm\<rparr>) = Some botForm"
    by simp
  have d: "statusDiv (exampleHandler\<lparr>form := Some botForm\<rparr>) = Some exampleStatus"
    by (simp add: exampleHandler_eq)
  note h = honeypot_short_circuit [OF f example_validity(2) example_honeypot(2), of readyEnv]
  from h have "statusDiv (snd (handleSubmit readyEnv (exampleHandler\<lparr>form := Some botForm\<rparr>)))
       = map_option (shown honeypotMessage ''success'')
           (statusDiv (exampleHandler\<lparr>form := Some botForm\<rparr>))"
    by blast
  with d have "statusDiv (snd (handleSubmit readyEnv (exampleHandler\<lparr>form := Some botForm\<rparr>)))
       = Some (shown honeypotMessage ''success'' exampleStatus)"
    by simp
  with h f example_validity(2) example_honeypot(2) show ?thesis
    by blast
qed

text \<open>
  Claim C1 as it is worded promises a visible success message for every such submission.
  On a page without the \<open>formStatus\<close> element the guard at the head of \<open>showStatus\<close>
  returns at once, and nothing is shown.
\<close>

theorem honeypot_without_status_region:
  "form (exampleHandler\<lparr>form := Some botForm, statusDiv := None\<rparr>) = Some botForm
   \<and> checkValidity botForm
   \<and> botcheck botForm = Some (True, False)
   \<and> statusDiv (snd (handleSubmit readyEnv
                       (exampleHandler\<lparr>form := Some botForm, statusDiv := None\<rparr>))) = None"
  by (simp add: example_validity example_honeypot handleSubmit_def enter_def
      honeypotChecked_def)

section \<open>Validation failure\<close>

text \<open>
  Claim C2, as the code has it. When native validation fails, \<open>handleSubmit\<close> calls
  \<open>showStatus\<close> with the text \<open>Please fill in all required fields.\<close> and kind
  \<open>error\<close> and returns in its synchronous part: the only effect is \<open>preventDefault\<close>,
  so no request leaves and no token acquisition starts; clock and timers are as before;
  the submit control is untouched, so the loading state is never entered. The status region
  shows the message where the page has one.
\<close>

theorem validation_failure:
  assumes "form s = Some f" and "\<not> checkValidity f"
  shows "enter s = (Finished Returned,
                    showStatus validationMessage ''error'' (emit PreventDefault s))
       \<and> handleSubmit env s =
           (Returned, showStatus validationMessage ''error'' (emit PreventDefault s))
       \<and> effects (snd (handleSubmit env s)) = effects s @ [PreventDefault]
       \<and> clock (snd (handleSubmit env s)) = clock s
       \<and> timers (snd (handleSubmit env s)) = timers s
       \<and> submitButton (snd (handleSubmit env s)) = submitButton s
       \<and> form (snd (handleSubmit env s)) = form s
       \<and> recaptchaResponse (snd (handleSubmit env s)) = recaptchaResponse s
       \<and> statusDiv (snd (handleSubmit env s)) =
           map_option (shown validationMessage ''error'') (statusDiv s)"
  using assms
  by (simp add: handleSubmit_def enter_def Let_def showStatus_timers)

theorem validation_failure_witness:
  "form (exampleHandler\<lparr>form := Some blankForm\<rparr>) = Some blankForm
   \<and> \<not> checkValidity blankForm
   \<and> handleSubmit readyEnv (exampleHandler\<lparr>form := Some blankForm\<rparr>) =
       (Returned, showStatus validationMessage ''error''
                    (emit PreventDefault (exampleHandler\<lparr>form := Some blankForm\<rparr>)))
   \<and> effects (snd (handleSubmit readyEnv (exampleHandler\<lparr>form := Some blankForm\<rparr>)))
       = effects (exampleHandler\<lparr>form := Some blankForm\<rparr>) @ [PreventDefault]
   \<and> statusDiv (snd (handleSubmit readyEnv (exampleHandler\<lparr>form := Some blankForm\<rparr>)))
       = Some (shown validationMessage ''error'' exampleStatus)"
proof -
  have f: "form (exampleHandler\<lparr>form := Some blankForm\<rparr>) = Some blankForm"
    by simp
  have d: "statusDiv (exampleHandler\<lparr>form := Some blankForm\<rparr>) = Some exampleStatus"
    by (simp add: exampleHandler_eq)
  note h = validation_failure [OF f example_validity(3), of readyEnv]
  from h have "statusDiv (snd (handleSubmit readyEnv (exampleHandler\<lparr>form := Some blankForm\<rparr>)))
       = map_option (shown validationMessage ''error'')
           (statusDiv (exampleHandler\<lparr>form := Some blankForm\<rparr>))"
    by blast
  with d have "statusDiv (snd (handleSubmit readyEnv (exampleHandler\<lparr>form := Some blankForm\<rparr>)))
       = Some (shown validationMessage ''error'' exampleStatus)"
    by simp
  with h f example_validity(3) show ?thesis
    by blast
qed

text \<open>
  Claim C2 as it is worded says that the status is set for every such submission. Without
  the \<open>formStatus\<close> element there is no status to set.
\<close>

theorem validation_failure_without_status_region:
  "form (exampleHandler\<lparr>form := Some blankForm, statusDiv := None\<rparr>) = Some blankForm
   \<and> \<not> checkValidity blankForm
   \<and> statusDiv (snd (handleSubmit readyEnv
                       (exampleHandler\<lparr>form := Some blankForm, statusDiv := None\<rparr>))) = None"
  by (simp add: example_validity handleSubmit_def enter_def)

section \<open>The analytics call\<close>

text \<open>
  Claim C3 at three environments that differ in \<open>gtag\<close> only, on a page where the API
  answers with \<open>success: true\<close>. With \<open>gtag\<close> absent and with a \<open>gtag\<close> that returns,
  the success message is displayed. The call sits inside the \<open>try\<close> block, so a \<open>gtag\<close>
  that throws lands in the \<open>catch\<close> block: the form has been reset already, and the
  generic error message replaces the success message.
\<close>

theorem gtag_failure_replaces_success_message:
  "statusDiv (snd (handleSubmit readyEnv exampleHandler))
     = Some (shown successMessage ''success'' exampleStatus)
   \<and> statusDiv (snd (handleSubmit gtagReturnsEnv exampleHandler))
       = Some (shown successMessage ''success'' exampleStatus)
   \<and> statusDiv (snd (handleSubmit gtagThrowsEnv exampleHandler))
       = Some (shown errorMessage ''error'' exampleStatus)
   \<and> form (snd (handleSubmit readyEnv exampleHandler)) = Some (reset exampleForm)
   \<and> form (snd (handleSubmit gtagThrowsEnv exampleHandler)) = Some (reset exampleForm)
   \<and> fst (handleSubmit gtagThrowsEnv exampleHandler) = Returned"
  by (simp add: run_defs readyEnv_def gtagReturnsEnv_def gtagThrowsEnv_def
      example_validity [unfolded checkValidity_def] example_honeypot [unfolded honeypotChecked_def]
      option.map_comp comp_def elapse_statusDiv shown_def)

section \<open>Waiting for the provider\<close>

lemma pollWait_clock: "clock ((pollWait ^^ n) s) = clock s + n * 500"
  by (induction n) (simp_all add: pollWait_def)

lemma checkRecaptcha_schedule:
  assumes "\<forall>k<n. \<not> grecaptchaDefined env k" and "n < maxAttempts"
  shows "checkRecaptcha env 0 s = checkRecaptcha env n ((pollWait ^^ n) s)"
  using assms
proof (induction n)
  case 0
  show ?case by simp
next
  case (Suc n)
  then have "checkRecaptcha env 0 s = checkRecaptcha env n ((pollWait ^^ n) s)"
    by simp
  also have "\<dots> = checkRecaptcha env (n + 1) (pollWait ((pollWait ^^ n) s))"
    using Suc.prems by (subst checkRecaptcha.simps) (simp add: pollWait_def)
  finally show ?case by simp
qed

lemma checkRecaptcha_ready:
  assumes "grecaptchaDefined env n"
  shows "checkRecaptcha env n s =
           (case execute env of
              Never \<Rightarrow> (TokenPending, emit (ConsoleLog ''reCAPTCHA loaded successfully'') s)
            | Rejected ms e \<Rightarrow>
                (TokenRejected e,
                 elapse ms (emit (ConsoleLog ''reCAPTCHA loaded successfully'') s))
            | Fulfilled ms token \<Rightarrow>
                (Token token,
                 emit (ConsoleLog ''reCAPTCHA token received'')
                   (elapse ms (emit (ConsoleLog ''reCAPTCHA loaded successfully'') s))))"
  using assms by (subst checkRecaptcha.simps) (simp add: Let_def split: promise.splits)

text \<open>
  Claim C4. The readiness checks are numbered from 0. Check number \<open>n\<close>, if it is
  reached, is made after \<open>n\<close> waits of 500 ms each, and there is no check beyond number
  19. The first check that finds the provider defined ends the polling: the provider is
  asked for a token, and the promise settles as the provider's does (it resolves with the
  provider's token, rejects with the provider's error, or stays pending with it). When the
  first 20 checks all find the provider undefined, the promise resolves with the empty
  string after 19 waits, 9500 ms after the call: it neither rejects nor stays pending,
  whatever a later check would have found. \<open>handleSubmit\<close> then goes on with the empty
  token: on a page with the hidden input it writes the empty string there and sends the
  request.
\<close>

theorem token_polling:
  "(\<forall>n<maxAttempts. (\<forall>k<n. \<not> grecaptchaDefined env k) \<longrightarrow>
      getRecaptchaToken env s = checkRecaptcha env n ((pollWait ^^ n) s)
      \<and> clock ((pollWait ^^ n) s) = clock s + n * 500)
   \<and> (\<forall>n<maxAttempts. (\<forall>k<n. \<not> grecaptchaDefined env k) \<and> grecaptchaDefined env n \<longrightarrow>
        getRecaptchaToken env s =
          (case execute env of
             Never \<Rightarrow>
               (TokenPending,
                emit (ConsoleLog ''reCAPTCHA loaded successfully'') ((pollWait ^^ n) s))
           | Rejected ms e \<Rightarrow>
               (TokenRejected e,
                elapse ms (emit (ConsoleLog ''reCAPTCHA loaded successfully'')
                             ((pollWait ^^ n) s)))
           | Fulfilled ms token \<Rightarrow>
               (Token token,
                emit (ConsoleLog ''reCAPTCHA token received'')
                  (elapse ms (emit (ConsoleLog ''reCAPTCHA loaded successfully'')
                                ((pollWait ^^ n) s))))))
   \<and> maxAttempts = 20
   \<and> ((\<forall>k<maxAttempts. \<not> grecaptchaDefined env k) \<longrightarrow>
        getRecaptchaToken env s =
          (Token [], emit (ConsoleWarn ''reCAPTCHA failed to load, continuing without it'')
                       ((pollWait ^^ 19) s))
        \<and> clock (snd (getRecaptchaToken env s)) = clock s + 9500
        \<and> tryBlock env s =
            (case afterToken [] (snd (getRecaptchaToken env s)) of
               (Finished c, s2) \<Rightarrow> (c, s2)
             | (Awaiting, s2) \<Rightarrow> awaitFetch env s2)
        \<and> (\<forall>f v. form s = Some f \<and> recaptchaResponse s = Some v \<longrightarrow>
              fst (afterToken [] (snd (getRecaptchaToken env s))) = Awaiting
              \<and> recaptchaResponse (snd (afterToken [] (snd (getRecaptchaToken env s)))) = Some []
              \<and> requests (snd (afterToken [] (snd (getRecaptchaToken env s)))) =
                  requests s @ [Fetch ''https://api.web3forms.com/submit'' ''POST''
                                  (FormData f (Some []))]))"
proof -
  have sched: "getRecaptchaToken env s = checkRecaptcha env n ((pollWait ^^ n) s)"
    if "n < maxAttempts" and "\<forall>k<n. \<not> grecaptchaDefined env k" for n
    using checkRecaptcha_schedule [OF that(2) that(1)] by (simp add: getRecaptchaToken_def)
  have never: "getRecaptchaToken env s =
          (Token [], emit (ConsoleWarn ''reCAPTCHA failed to load, continuing without it'')
                       ((pollWait ^^ 19) s))"
    if nr: "\<forall>k<maxAttempts. \<not> grecaptchaDefined env k"
  proof -
    from nr have "getRecaptchaToken env s = checkRecaptcha env 19 ((pollWait ^^ 19) s)"
      by (intro sched) (simp_all add: maxAttempts_def)
    also from nr have "\<dots> = (Token [],
        emit (ConsoleWarn ''reCAPTCHA failed to load, continuing without it'')
          ((pollWait ^^ 19) s))"
      by (subst checkRecaptcha.simps) (simp add: maxAttempts_def)
    finally show ?thesis .
  qed
  have go: "fst (afterToken [] s') = Awaiting
            \<and> recaptchaResponse (snd (afterToken [] s')) = Some []
            \<and> requests (snd (afterToken [] s')) =
                requests s' @ [Fetch ''https://api.web3forms.com/submit'' ''POST''
                                 (FormData f (Some []))]"
    if "form s' = Some f" and "recaptchaResponse s' = Some v" for s' f v
    using that by (simp add: afterToken_def requests_def)
  have frame: "form s' = form s \<and> recaptchaResponse s' = recaptchaResponse s
               \<and> requests s' = requests s"
    if "getRecaptchaToken env s = (r, s')" for r s'
    using getRecaptchaToken_frame(1,3,4) [of env s] that by simp
  show ?thesis
  proof (intro conjI allI impI)
    fix n assume "n < maxAttempts" and "\<forall>k<n. \<not> grecaptchaDefined env k"
    then show "getRecaptchaToken env s = checkRecaptcha env n ((pollWait ^^ n) s)"
      by (rule sched)
  next
    fix n show "clock ((pollWait ^^ n) s) = clock s + n * 500"
      by (rule pollWait_clock)
  next
    fix n
    assume "n < maxAttempts"
      and "(\<forall>k<n. \<not> grecaptchaDefined env k) \<and> grecaptchaDefined env n"
    then show "getRecaptchaToken env s =
          (case execute env of
             Never \<Rightarrow>
               (TokenPending,
                emit (ConsoleLog ''reCAPTCHA loaded successfully'') ((pollWait ^^ n) s))
           | Rejected ms e \<Rightarrow>
               (TokenRejected e,
                elapse ms (emit (ConsoleLog ''reCAPTCHA loaded successfully'')
                             ((pollWait ^^ n) s)))
           | Fulfilled ms token \<Rightarrow>
               (Token token,
                emit (ConsoleLog ''reCAPTCHA token received'')
                  (elapse ms (emit (ConsoleLog ''reCAPTCHA loaded successfully'')
                                ((pollWait ^^ n) s)))))"
      using sched [of n] checkRecaptcha_ready [of env n "(pollWait ^^ n) s"] by simp
  next
    show "maxAttempts = 20"
      by (simp add: maxAttempts_def)
  next
    assume "\<forall>k<maxAttempts. \<not> grecaptchaDefined env k"
    then show "getRecaptchaToken env s =
          (Token [], emit (ConsoleWarn ''reCAPTCHA failed to load, continuing without it'')
                       ((pollWait ^^ 19) s))"
      by (rule never)
  next
    assume "\<forall>k<maxAttempts. \<not> grecaptchaDefined env k"
    then show "clock (snd (getRecaptchaToken env s)) = clock s + 9500"
      by (simp add: never pollWait_clock)
  next
    assume "\<forall>k<maxAttempts. \<not> grecaptchaDefined env k"
    then show "tryBlock env s =
            (case afterToken [] (snd (getRecaptchaToken env s)) of
               (Finished c, s2) \<Rightarrow> (c, s2)
             | (Awaiting, s2) \<Rightarrow> awaitFetch env s2)"
      by (simp add: never tryBlock_def)
  next
    fix f v
    assume nr: "\<forall>k<maxAttempts. \<not> grecaptchaDefined env k"
      and fv: "form s = Some f \<and> recaptchaResponse s = Some v"
    obtain r s' where g: "getRecaptchaToken env s = (r, s')"
      by (cases "getRecaptchaToken env s")
    from frame [OF g] fv have "form s' = Some f" and "recaptchaResponse s' = Some v"
      and q: "requests s' = requests s"
      by simp_all
    from go [OF this(1,2)] q g
    show "fst (afterToken [] (snd (getRecaptchaToken env s))) = Awaiting"
      and "recaptchaResponse (snd (afterToken [] (snd (getRecaptchaToken env s)))) = Some []"
      and "requests (snd (afterToken [] (snd (getRecaptchaToken env s)))) =
                  requests s @ [Fetch ''https://api.web3forms.com/submit'' ''POST''
                                  (FormData f (Some []))]"
      by simp_all
  qed
qed

theorem token_polling_witness:
  "grecaptchaDefined neverReadyEnv = (\<lambda>k. False)
   \<and> form exampleHandler = Some exampleForm
   \<and> recaptchaResponse exampleHandler = Some []
   \<and> fst (getRecaptchaToken neverReadyEnv exampleHandler) = Token []
   \<and> clock (snd (getRecaptchaToken neverReadyEnv exampleHandler)) = clock exampleHandler + 9500
   \<and> requests (snd (afterToken [] (snd (getRecaptchaToken neverReadyEnv exampleHandler)))) =
       requests exampleHandler @ [Fetch ''https://api.web3forms.com/submit'' ''POST''
                                    (FormData exampleForm (Some []))]
   \<and> grecaptchaDefined readyEnv 0
   \<and> execute readyEnv = Fulfilled 120 ''tok''
   \<and> fst (getRecaptchaToken readyEnv exampleHandler) = Token ''tok''
   \<and> clock (snd (getRecaptchaToken readyEnv exampleHandler)) = clock exampleHandler + 120
   \<and> grecaptchaDefined stalledEnv 0
   \<and> execute stalledEnv = Never
   \<and> fst (getRecaptchaToken stalledEnv exampleHandler) = TokenPending
   \<and> grecaptchaDefined nullRejectEnv 0
   \<and> execute nullRejectEnv = Rejected 30 Nullish
   \<and> fst (getRecaptchaToken nullRejectEnv exampleHandler) = TokenRejected Nullish"
proof -
  have never: "grecaptchaDefined neverReadyEnv = (\<lambda>k. False)"
    by (simp add: neverReadyEnv_def)
  then have nr: "\<forall>k<maxAttempts. \<not> grecaptchaDefined neverReadyEnv k"
    by simp
  have f: "form exampleHandler = Some exampleForm"
    and v: "recaptchaResponse exampleHandler = Some []"
    by (simp_all add: exampleHandler_eq)
  note t = token_polling [of neverReadyEnv exampleHandler]
  from t nr have "getRecaptchaToken neverReadyEnv exampleHandler =
      (Token [], emit (ConsoleWarn ''reCAPTCHA failed to load, continuing without it'')
                   ((pollWait ^^ 19) exampleHandler))"
    by blast
  then have 1: "fst (getRecaptchaToken neverReadyEnv exampleHandler) = Token []"
    by simp
  have now: "(0::nat) < maxAttempts"
    by (simp add: maxAttempts_def)
  have r: "grecaptchaDefined readyEnv 0" "execute readyEnv = Fulfilled 120 ''tok''"
    and st: "grecaptchaDefined stalledEnv 0" "execute stalledEnv = Never"
    and nu: "grecaptchaDefined nullRejectEnv 0" "execute nullRejectEnv = Rejected 30 Nullish"
    by (simp_all add: readyEnv_def stalledEnv_def nullRejectEnv_def)
  have ready: "getRecaptchaToken env exampleHandler =
          (case execute env of
             Never \<Rightarrow>
               (TokenPending,
                emit (ConsoleLog ''reCAPTCHA loaded successfully'') ((pollWait ^^ 0) exampleHandler))
           | Rejected ms e \<Rightarrow>
               (TokenRejected e,
                elapse ms (emit (ConsoleLog ''reCAPTCHA loaded successfully'')
                             ((pollWait ^^ 0) exampleHandler)))
           | Fulfilled ms token \<Rightarrow>
               (Token token,
                emit (ConsoleLog ''reCAPTCHA token received'')
                  (elapse ms (emit (ConsoleLog ''reCAPTCHA loaded successfully'')
                                ((pollWait ^^ 0) exampleHandler)))))"
    if "grecaptchaDefined env 0" for env
    using token_polling [of env exampleHandler] now that by blast
  from ready [OF r(1)] r(2)
  have 2: "fst (getRecaptchaToken readyEnv exampleHandler) = Token ''tok''"
    and 3: "clock (snd (getRecaptchaToken readyEnv exampleHandler)) = clock exampleHandler + 120"
    by simp_all
  from ready [OF st(1)] st(2)
  have 4: "fst (getRecaptchaToken stalledEnv exampleHandler) = TokenPending"
    by simp
  from ready [OF nu(1)] nu(2)
  have 5: "fst (getRecaptchaToken nullRejectEnv exampleHandler) = TokenRejected Nullish"
    by simp
  from t nr f v 1 never have
    "grecaptchaDefined neverReadyEnv = (\<lambda>k. False)
     \<and> form exampleHandler = Some exampleForm
     \<and> recaptchaResponse exampleHandler = Some []
     \<and> fst (getRecaptchaToken neverReadyEnv exampleHandler) = Token []
     \<and> clock (snd (getRecaptchaToken neverReadyEnv exampleHandler)) = clock exampleHandler + 9500
     \<and> requests (snd (afterToken [] (snd (getRecaptchaToken neverReadyEnv exampleHandler)))) =
         requests exampleHandler @ [Fetch ''https://api.web3forms.com/submit'' ''POST''
                                      (FormData exampleForm (Some []))]"
    by blast
  with r st nu 2 3 4 5 show ?thesis
    by blast
qed

section \<open>The submit control after an attempt\<close>

lemma awaitFetch_hung:
  assumes "fst (awaitFetch env s) = Hung"
  shows "submitButton (snd (awaitFetch env s)) = submitButton s"
  using assms
  by (auto simp: awaitFetch_def awaitJson_def catchBlock_fields afterJson_fields
      split: promise.splits)

lemma tryBlock_hung:
  assumes "fst (tryBlock env s) = Hung"
  shows "submitButton (snd (tryBlock env s)) = submitButton s"
proof -
  obtain r s1 where g: "getRecaptchaToken env s = (r, s1)"
    by (cases "getRecaptchaToken env s")
  have b1: "submitButton s1 = submitButton s"
    using getRecaptchaToken_frame(2) [of env s] g by simp
  show ?thesis
  proof (cases r)
    case (Token token)
    obtain p s2 where a: "afterToken token s1 = (p, s2)"
      by (cases "afterToken token s1")
    show ?thesis
    proof (cases p)
      case Awaiting
      with a have "submitButton s2 = submitButton s1"
        by (simp add: afterToken_Awaiting)
      with g Token a Awaiting assms b1 awaitFetch_hung [of env s2] show ?thesis
        by (simp add: tryBlock_def)
    next
      case (Finished c)
      with a have "c \<noteq> Hung"
        using catchBlock_fields(4)
        by (auto simp: afterToken_def Let_def split_beta split: option.splits)
      with g Token a Finished assms show ?thesis
        by (simp add: tryBlock_def)
    qed
  next
    case (TokenRejected e)
    with g assms catchBlock_fields(4) [of e s1] show ?thesis
      by (simp add: tryBlock_def)
  next
    case TokenPending
    with g b1 show ?thesis
      by (simp add: tryBlock_def)
  qed
qed

text \<open>
  Claim C5, as the code has it. Take an attempt that starts with the submit control
  enabled, as every attempt that comes through the user interface does. If it terminates,
  the control is enabled afterwards. After an attempt that entered the loading state
  (validation passed, honeypot clear), whatever happened next (success, an API or network
  failure, a failed token acquisition), the \<open>finally\<close> block has run: the label is at
  \<open>inline\<close> and the spinner at \<open>none\<close>. After a validation failure or the honeypot
  short-circuit the control has not been touched: it is exactly as it was before. An
  attempt that does not terminate is one that entered the loading state and waits for a
  promise that never settles: the code has no timeout and no cancellation for it, and the
  control stays disabled.
\<close>

theorem control_after_attempt:
  assumes "submitButton s = Some b" and "\<not> disabled b"
  shows "(fst (handleSubmit env s) \<noteq> Hung \<longrightarrow>
            (\<exists>b'. submitButton (snd (handleSubmit env s)) = Some b' \<and> \<not> disabled b'
                  \<and> (fst (enter s) = Awaiting \<longrightarrow> nonLoading b')
                  \<and> (fst (enter s) \<noteq> Awaiting \<longrightarrow> b' = b)
                  \<and> (nonLoading b \<longrightarrow> nonLoading b')))
       \<and> (fst (handleSubmit env s) = Hung \<longrightarrow>
            fst (enter s) = Awaiting
            \<and> (\<exists>b'. submitButton (snd (handleSubmit env s)) = Some b' \<and> disabled b'))"
proof -
  obtain p s1 where e: "enter s = (p, s1)"
    by (cases "enter s")
  show ?thesis
  proof (cases p)
    case Awaiting
    with e have h: "handleSubmit env s = tryBlock env s1"
      by (simp add: handleSubmit_def)
    from e Awaiting obtain b1 where b1: "submitButton s1 = Some b1" "disabled b1"
      using enter_loading(1) [of s s1] by auto
    have 1: "\<exists>b'. submitButton (snd (tryBlock env s1)) = Some b' \<and> nonLoading b'"
      if "fst (tryBlock env s1) \<noteq> Hung"
      using tryBlock_control [of s1 env] that b1(1)
      by (auto simp: idleControl_def split: option.splits)
    have 2: "\<exists>b'. submitButton (snd (tryBlock env s1)) = Some b' \<and> disabled b'"
      if "fst (tryBlock env s1) = Hung"
      using tryBlock_hung [OF that] b1 by simp
    from e Awaiting h 1 2 show ?thesis
      by (auto simp: nonLoading_def)
  next
    case (Finished c)
    with e have "submitButton s1 = submitButton s"
      using enter_finished(1) [of s c s1] by simp
    moreover from e Finished have "c \<noteq> Hung"
      by (auto simp: enter_def Let_def split: option.splits if_splits sum.splits)
    ultimately show ?thesis
      using e Finished assms by (simp add: handleSubmit_def)
  qed
qed

theorem control_after_attempt_witness:
  "submitButton exampleHandler = Some exampleButton
   \<and> \<not> disabled exampleButton
   \<and> fst (handleSubmit readyEnv exampleHandler) \<noteq> Hung
   \<and> fst (enter exampleHandler) = Awaiting
   \<and> (\<exists>b'. submitButton (snd (handleSubmit readyEnv exampleHandler)) = Some b'
            \<and> \<not> disabled b' \<and> nonLoading b')"
proof -
  have b: "submitButton exampleHandler = Some exampleButton"
    by (simp add: exampleHandler_eq)
  have d: "\<not> disabled exampleButton"
    by (simp add: exampleButton_def)
  have t: "fst (handleSubmit readyEnv exampleHandler) \<noteq> Hung"
    by (simp add: example_run_returns)
  from control_after_attempt [OF b d, of readyEnv] b d t example_enter show ?thesis
    by blast
qed

text \<open>
  Claim C5 as it is worded ends with \<open>no path leaves the form permanently disabled\<close>.
  On the example page, with the control enabled and a valid form, the attempt enters the
  loading state; when the provider's promise never settles it stays suspended at line 64,
  and when the request never settles it stays suspended at line 69. Neither reaches the
  \<open>finally\<close> block, and the control is left disabled.
\<close>

theorem stalled_attempt_leaves_control_disabled:
  "submitButton exampleHandler = Some exampleButton
   \<and> \<not> disabled exampleButton
   \<and> checkValidity exampleForm
   \<and> \<not> honeypotChecked exampleForm
   \<and> fst (handleSubmit stalledEnv exampleHandler) = Hung
   \<and> map_option disabled (submitButton (snd (handleSubmit stalledEnv exampleHandler)))
       = Some True
   \<and> map_option btnLoader (submitButton (snd (handleSubmit stalledEnv exampleHandler)))
       = Some (Some ''inline-block'')
   \<and> fst (handleSubmit silentEnv exampleHandler) = Hung
   \<and> map_option disabled (submitButton (snd (handleSubmit silentEnv exampleHandler)))
       = Some True"
  by (simp add: example_validity example_honeypot)
     (simp add: run_defs readyEnv_def stalledEnv_def silentEnv_def exampleForm_def
      exampleButton_def)

section \<open>A failed submission\<close>

lemma failed_after_dispatch:
  assumes "form s = Some f" and "checkValidity f" and "\<not> honeypotChecked f"
    and "submitButton s = Some b" and "recaptchaResponse s = Some v"
    and "fst (getRecaptchaToken env s) = Token token"
    and "apiFails env"
  shows "fst (handleSubmit env s) = Returned
       \<and> form (snd (handleSubmit env s)) = Some f
       \<and> statusDiv (snd (handleSubmit env s)) =
           map_option (shown errorMessage ''error'') (statusDiv s)
       \<and> idleControl (snd (handleSubmit env s))"
proof -
  from handleSubmit_loading [OF assms(1-4)]
  obtain s1 where e: "enter s = (Awaiting, s1)" and h: "handleSubmit env s = tryBlock env s1"
    by blast
  obtain r s2 where g: "getRecaptchaToken env s1 = (r, s2)"
    by (cases "getRecaptchaToken env s1")
  have r: "r = Token token"
    using getRecaptchaToken_result [of env s1 s] g assms(6) by simp
  have f2: "form s2 = Some f" and b2: "submitButton s2 \<noteq> None"
    and v2: "recaptchaResponse s2 = Some v"
    using getRecaptchaToken_frame(1-3) [of env s1] g enter_loading(1-3) [OF e] assms(1,5)
    by auto
  have d2: "map_option (shown errorMessage ''error'') (statusDiv s2)
              = map_option (shown errorMessage ''error'') (statusDiv s)"
    using getRecaptchaToken_frame(5) [of errorMessage "''error''" env s1] g
      enter_loading(5) [OF e]
    by (simp add: option.map_comp comp_def)
  define s3 where "s3 = emit (Fetch ''https://api.web3forms.com/submit'' ''POST''
                           (FormData f (Some token))) (s2\<lparr>recaptchaResponse := Some token\<rparr>)"
  have a: "afterToken token s2 = (Awaiting, s3)"
    using f2 v2 by (simp add: afterToken_def s3_def)
  have t: "tryBlock env s1 = awaitFetch env s3"
    using g r a by (simp add: tryBlock_def)
  have "form s3 = Some f" and "submitButton s3 \<noteq> None"
    and "map_option (shown errorMessage ''error'') (statusDiv s3)
           = map_option (shown errorMessage ''error'') (statusDiv s)"
    using f2 b2 d2 by (simp_all add: s3_def)
  with awaitFetch_failure [OF assms(7), of s3] awaitFetch_control [of s3 env] h t
  show ?thesis
    by simp
qed

lemma request_dispatched:
  assumes "requests (snd (handleSubmit env s)) \<noteq> requests s"
  shows "\<exists>f b v token. form s = Some f \<and> checkValidity f \<and> \<not> honeypotChecked f
           \<and> submitButton s = Some b \<and> recaptchaResponse s = Some v
           \<and> fst (getRecaptchaToken env s) = Token token"
proof -
  obtain p s1 where e: "enter s = (p, s1)"
    by (cases "enter s")
  show ?thesis
  proof (cases p)
    case (Finished c)
    with e assms enter_finished(2) [of s c s1] show ?thesis
      by (simp add: handleSubmit_def)
  next
    case Awaiting
    with e have h: "handleSubmit env s = tryBlock env s1"
      by (simp add: handleSubmit_def)
    from e Awaiting have q1: "requests s1 = requests s"
      and r1: "recaptchaResponse s1 = recaptchaResponse s"
      using enter_loading(3,4) [of s s1] by simp_all
    from e Awaiting have "fst (enter s) = Awaiting"
      by simp
    then obtain f b where fb: "form s = Some f" "checkValidity f" "\<not> honeypotChecked f"
      "submitButton s = Some b"
      by (auto simp: enter_Awaiting)
    obtain r s2 where g: "getRecaptchaToken env s1 = (r, s2)"
      by (cases "getRecaptchaToken env s1")
    have q2: "requests s2 = requests s"
      using getRecaptchaToken_frame(4) [of env s1] g q1 by simp
    have r: "fst (getRecaptchaToken env s) = r"
      using getRecaptchaToken_result [of env s s1] g by simp
    show ?thesis
    proof (cases "recaptchaResponse s")
      case None
      with r1 awaitFetch_not_reached [of s1 env] h q1 assms show ?thesis
        by simp
    next
      case (Some v)
      show ?thesis
      proof (cases r)
        case (Token token)
        with fb Some r show ?thesis by blast
      next
        case (TokenRejected err)
        with g h q2 assms show ?thesis
          by (simp add: tryBlock_def catchBlock_fields)
      next
        case TokenPending
        with g h q2 assms show ?thesis
          by (simp add: tryBlock_def)
      qed
    qed
  qed
qed

lemma failingEnv_fails: "apiFails failingEnv"
  by (simp add: apiFails_def failingEnv_def)

lemma failing_example_dispatched:
  "requests (snd (handleSubmit failingEnv exampleHandler)) \<noteq> requests exampleHandler"
  by (simp add: run_defs requests_def readyEnv_def failingEnv_def exampleForm_def)

text \<open>
  Claim C6, as the code has it. Take a submission that sent its request. If the request
  fails, or the body of the response does not parse, or the parsed data carries no truthy
  \<open>success\<close>, then \<open>handleSubmit\<close> returns after calling \<open>showStatus\<close> with the
  generic error message, the form is exactly as it was (no field has been reset) and the
  submit control is back in its enabled look. The status region shows the message where the
  page has one.
\<close>

theorem failed_submission_keeps_fields:
  assumes "requests (snd (handleSubmit env s)) \<noteq> requests s" and "apiFails env"
  shows "fst (handleSubmit env s) = Returned
       \<and> form (snd (handleSubmit env s)) = form s
       \<and> statusDiv (snd (handleSubmit env s)) =
           map_option (shown errorMessage ''error'') (statusDiv s)
       \<and> idleControl (snd (handleSubmit env s))"
proof -
  from request_dispatched [OF assms(1)]
  obtain f b v token where "form s = Some f" "checkValidity f" "\<not> honeypotChecked f"
    "submitButton s = Some b" "recaptchaResponse s = Some v"
    "fst (getRecaptchaToken env s) = Token token"
    by blast
  from failed_after_dispatch [OF this assms(2)] \<open>form s = Some f\<close>
  show ?thesis
    by simp
qed

theorem failed_submission_keeps_fields_witness:
  "requests (snd (handleSubmit failingEnv exampleHandler)) \<noteq> requests exampleHandler
   \<and> apiFails failingEnv
   \<and> fst (handleSubmit failingEnv exampleHandler) = Returned
   \<and> form (snd (handleSubmit failingEnv exampleHandler)) = form exampleHandler
   \<and> statusDiv (snd (handleSubmit failingEnv exampleHandler)) =
       map_option (shown errorMessage ''error'') (statusDiv exampleHandler)
   \<and> idleControl (snd (handleSubmit failingEnv exampleHandler))"
proof -
  from failed_submission_keeps_fields [OF failing_example_dispatched failingEnv_fails]
       failing_example_dispatched failingEnv_fails
  show ?thesis
    by blast
qed

text \<open>
  Claim C6 as it is worded promises that the generic error message is displayed. On a page
  without the \<open>formStatus\<close> element \<open>showStatus\<close> returns at its guard and nothing is
  displayed; the form is still left as it was.
\<close>

theorem failed_submission_without_status_region:
  "checkValidity exampleForm
   \<and> \<not> honeypotChecked exampleForm
   \<and> apiFails failingEnv
   \<and> requests (snd (handleSubmit failingEnv (exampleHandler\<lparr>statusDiv := None\<rparr>)))
       = [Fetch ''https://api.web3forms.com/submit'' ''POST''
            (FormData exampleForm (Some ''tok''))]
   \<and> fst (handleSubmit failingEnv (exampleHandler\<lparr>statusDiv := None\<rparr>)) = Returned
   \<and> statusDiv (snd (handleSubmit failingEnv (exampleHandler\<lparr>statusDiv := None\<rparr>))) = None"
  by (simp add: failingEnv_fails example_validity example_honeypot)
     (simp add: run_defs requests_def readyEnv_def failingEnv_def exampleForm_def)

section \<open>Construction without a form\<close>

text \<open>
  Claim C7. When the form identifier matches no element, construction gives a handler whose
  element fields are all \<open>null\<close> and has no effect at all: no script is appended for the
  provider and no submit listener is registered, which are the two things \<open>init\<close> does.
  The constructor has no failing branch, so nothing is thrown.
\<close>

theorem missing_form_is_noop:
  assumes "formsById doc formId = None"
  shows "Web3FormsHandler doc formId siteKey =
           \<lparr>form = None, recaptchaSiteKey = siteKey, submitButton = None, statusDiv = None,
            recaptchaResponse = recaptchaInput doc, timers = [], clock = 0, effects = []\<rparr>
       \<and> effects (Web3FormsHandler doc formId siteKey) = []
       \<and> AddSubmitListener \<notin> set (effects (Web3FormsHandler doc formId siteKey))"
  using assms
  by (simp add: Web3FormsHandler_def init_def loadRecaptcha_def emit_def)

theorem missing_form_is_noop_witness:
  "formsById examplePage ''signupForm'' = None
   \<and> effects (Web3FormsHandler examplePage ''signupForm'' ''site-key'') = []
   \<and> AddSubmitListener \<notin> set (effects (Web3FormsHandler examplePage ''signupForm'' ''site-key''))"
proof -
  have n: "formsById examplePage ''signupForm'' = None"
    by (simp add: examplePage_def)
  from missing_form_is_noop [OF n, of "''site-key''"] n show ?thesis
    by blast
qed

section \<open>The status region in time\<close>

text \<open>
  Claim C8, on a page that has the status region. \<open>showStatus\<close> writes text, class and
  display of the one region, whatever it held before, so the newest message replaces any
  earlier one. With kind \<open>success\<close> it sets one timeout of 5000 ms for \<open>hideStatus\<close>:
  from 5000 ms on the region is hidden, and before that, unless an older timeout runs out,
  the message is displayed. With kind \<open>error\<close> it sets no timeout: however much time
  passes the message stays displayed, unless an older timeout calls \<open>hideStatus\<close>.
  \<open>setLoadingState\<close> and the form reset do not write to the region.
\<close>

theorem status_region:
  assumes "statusDiv s = Some d"
  shows "statusDiv (showStatus m k s) = Some (shown m k d)
       \<and> statusDiv (showStatus m' k' (showStatus m k s)) = Some (shown m' k' d)
       \<and> statusDiv (hideStatus (showStatus m k s)) = Some ((shown m k d)\<lparr>display := ''none''\<rparr>)
       \<and> timers (showStatus m ''success'' s) = timers s @ [(5000, HideStatus)]
       \<and> timers (showStatus m ''error'' s) = timers s
       \<and> (\<forall>ms\<ge>5000. statusDiv (elapse ms (showStatus m ''success'' s))
                         = Some ((shown m ''success'' d)\<lparr>display := ''none''\<rparr>))
       \<and> (\<forall>ms<5000. (\<forall>t\<le>ms. (t, HideStatus) \<notin> set (timers s)) \<longrightarrow>
             statusDiv (elapse ms (showStatus m ''success'' s)) = Some (shown m ''success'' d))
       \<and> (\<forall>ms. (\<forall>t\<le>ms. (t, HideStatus) \<notin> set (timers s)) \<longrightarrow>
             statusDiv (elapse ms (showStatus m ''error'' s)) = Some (shown m ''error'' d))
       \<and> (\<forall>l s'. setLoadingState l (showStatus m k s) = Inr s' \<longrightarrow>
             statusDiv s' = Some (shown m k d))
       \<and> (\<forall>s'. formReset (showStatus m k s) = Inr s' \<longrightarrow> statusDiv s' = Some (shown m k d))"
proof -
  have shown_twice: "shown m' k' (shown m k d) = shown m' k' d"
    by (simp add: shown_def)
  have late: "statusDiv (elapse ms (showStatus m ''success'' s))
                = Some ((shown m ''success'' d)\<lparr>display := ''none''\<rparr>)" if "5000 \<le> ms" for ms
    using that assms
    by (auto simp: elapse_statusDiv showStatus_timers)
  have early: "statusDiv (elapse ms (showStatus m ''success'' s)) = Some (shown m ''success'' d)"
    if "ms < 5000" and "\<forall>t\<le>ms. (t, HideStatus) \<notin> set (timers s)" for ms
    using that assms
    by (auto simp: elapse_statusDiv showStatus_timers)
  have stays: "statusDiv (elapse ms (showStatus m ''error'' s)) = Some (shown m ''error'' d)"
    if "\<forall>t\<le>ms. (t, HideStatus) \<notin> set (timers s)" for ms
    using that assms
    by (auto simp: elapse_statusDiv showStatus_timers)
  have loading: "statusDiv s' = Some (shown m k d)"
    if "setLoadingState l (showStatus m k s) = Inr s'" for l s'
    using setLoadingState_Inr [OF that] assms by simp
  have resetting: "statusDiv s' = Some (shown m k d)"
    if "formReset (showStatus m k s) = Inr s'" for s'
    using that assms by (auto simp: formReset_def split: option.splits)
  show ?thesis
    using assms late early stays loading resetting
    by (simp add: shown_twice showStatus_timers)
qed

theorem status_region_witness:
  "statusDiv exampleHandler = Some exampleStatus
   \<and> statusDiv (showStatus successMessage ''success'' exampleHandler)
       = Some (shown successMessage ''success'' exampleStatus)
   \<and> timers (showStatus successMessage ''success'' exampleHandler)
       = timers exampleHandler @ [(5000, HideStatus)]
   \<and> timers (showStatus successMessage ''error'' exampleHandler) = timers exampleHandler
   \<and> statusDiv (elapse 5000 (showStatus successMessage ''success'' exampleHandler))
       = Some ((shown successMessage ''success'' exampleStatus)\<lparr>display := ''none''\<rparr>)
   \<and> statusDiv (elapse 4999 (showStatus successMessage ''success'' exampleHandler))
       = Some (shown successMessage ''success'' exampleStatus)
   \<and> statusDiv (elapse 60000 (showStatus errorMessage ''error'' exampleHandler))
       = Some (shown errorMessage ''error'' exampleStatus)"
proof -
  have d: "statusDiv exampleHandler = Some exampleStatus"
    and t: "\<forall>t\<le>ms. (t, HideStatus) \<notin> set (timers exampleHandler)" for ms
    by (simp_all add: exampleHandler_eq)
  note h = status_region [OF d, where m = successMessage and k = "''success''"]
  note e = status_region [OF d, where m = errorMessage and k = "''error''"]
  from h have 1: "statusDiv (elapse 5000 (showStatus successMessage ''success'' exampleHandler))
       = Some ((shown successMessage ''success'' exampleStatus)\<lparr>display := ''none''\<rparr>)"
    by simp
  from h t [of 4999]
  have 2: "statusDiv (elapse 4999 (showStatus successMessage ''success'' exampleHandler))
       = Some (shown successMessage ''success'' exampleStatus)"
    by simp
  from e t [of 60000]
  have 3: "statusDiv (elapse 60000 (showStatus errorMessage ''error'' exampleHandler))
       = Some (shown errorMessage ''error'' exampleStatus)"
    by blast
  from h d 1 2 3 show ?thesis
    by blast
qed

section \<open>One submission at a time\<close>

lemma drop_the_only_one:
  "length ps \<le> 1 \<Longrightarrow> i < length ps \<Longrightarrow> take i ps @ drop (Suc i) ps = []"
  by (cases ps) auto

lemma uiCanSubmit_fields [simp]:
  "uiCanSubmit (elapse ms s) = uiCanSubmit s"
  "uiCanSubmit (setTimeout cb ms s) = uiCanSubmit s"
  "uiCanSubmit (emit e s) = uiCanSubmit s"
  "uiCanSubmit (s\<lparr>form := f\<rparr>) = uiCanSubmit s"
  by (simp_all add: uiCanSubmit_def)

lemma step_keeps_one:
  assumes "step c c'"
    and "length (snd c) \<le> 1"
    and "snd c \<noteq> [] \<longrightarrow> submitButton (fst c) \<noteq> None \<and> \<not> uiCanSubmit (fst c)"
  shows "length (snd c') \<le> 1
       \<and> (snd c' \<noteq> [] \<longrightarrow> submitButton (fst c') \<noteq> None \<and> \<not> uiCanSubmit (fst c'))"
  using assms
proof (induction rule: step.induct)
  case (submit_finishes s c s' ps)
  then have "ps = []" by auto
  then show ?case by simp
next
  case (submit_suspends s s' ps)
  then have "ps = []" by auto
  moreover from enter_loading(1) [OF submit_suspends.hyps(2)]
  have "submitButton s' \<noteq> None \<and> \<not> uiCanSubmit s'"
    by (auto simp: uiCanSubmit_def)
  ultimately show ?case by simp
next
  case (token_dispatches i ps token s s')
  from afterToken_Awaiting [OF token_dispatches.hyps(3)] token_dispatches.prems
    token_dispatches.hyps(1)
  show ?case by (auto simp: uiCanSubmit_def)
qed (auto simp: drop_the_only_one)

text \<open>
  Claim C9. Start from any page with no attempt suspended and let the event loop run any
  number of tasks: submit events that come through the user interface, the token, the
  response and the parsed body arriving or failing for a suspended attempt, timeouts,
  edits of the fields. At every moment at most one attempt is suspended, so at most one
  request is outstanding; and while one is suspended, that is from the moment it entered
  the loading state until its \<open>finally\<close> block, the submit button is disabled, so the user
  interface cannot start another.
\<close>

theorem one_submission_in_flight:
  assumes "step\<^sup>*\<^sup>* (s0, []) (s, ps)"
  shows "length ps \<le> 1
       \<and> length (filter (\<lambda>p. p = AwaitingFetch) ps) \<le> 1
       \<and> (ps \<noteq> [] \<longrightarrow> (\<exists>b. submitButton s = Some b \<and> disabled b) \<and> \<not> uiCanSubmit s)"
proof -
  have "length (snd c) \<le> 1
        \<and> (snd c \<noteq> [] \<longrightarrow> submitButton (fst c) \<noteq> None \<and> \<not> uiCanSubmit (fst c))"
    if "step\<^sup>*\<^sup>* (s0, []) c" for c
    using that
  proof (induction rule: rtranclp_induct)
    case base
    show ?case by simp
  next
    case (step c c')
    from step_keeps_one [OF step.hyps(2)] step.IH show ?case
      by blast
  qed
  from this [OF assms]
  have 1: "length ps \<le> 1" and 2: "ps \<noteq> [] \<longrightarrow> submitButton s \<noteq> None \<and> \<not> uiCanSubmit s"
    by simp_all
  have "length (filter (\<lambda>p. p = AwaitingFetch) ps) \<le> length ps"
    by (rule length_filter_le)
  with 1 have 3: "length (filter (\<lambda>p. p = AwaitingFetch) ps) \<le> 1"
    by linarith
  from 2 have "ps \<noteq> [] \<longrightarrow> (\<exists>b. submitButton s = Some b \<and> disabled b) \<and> \<not> uiCanSubmit s"
    by (auto simp: uiCanSubmit_def split: option.splits)
  with 1 3 show ?thesis
    by blast
qed

theorem one_submission_in_flight_witness:
  "step\<^sup>*\<^sup>* (exampleHandler, []) (snd (enter exampleHandler), [AwaitingToken])
   \<and> length [AwaitingToken] \<le> 1
   \<and> (\<exists>b. submitButton (snd (enter exampleHandler)) = Some b \<and> disabled b)
   \<and> \<not> uiCanSubmit (snd (enter exampleHandler))"
proof -
  have "uiCanSubmit exampleHandler"
    by (simp add: uiCanSubmit_def exampleHandler_eq exampleButton_def)
  moreover have "enter exampleHandler = (Awaiting, snd (enter exampleHandler))"
    using example_enter by (cases "enter exampleHandler") simp
  ultimately have "step (exampleHandler, []) (snd (enter exampleHandler), [] @ [AwaitingToken])"
    by (rule submit_suspends)
  then have r: "step\<^sup>*\<^sup>* (exampleHandler, []) (snd (enter exampleHandler), [AwaitingToken])"
    by simp
  from one_submission_in_flight [OF r] r show ?thesis
    by blast
qed

section \<open>A page without the hidden token input\<close>

text \<open>
  Claim C10, as the code has it. Take a submission that passes validation and the honeypot
  check, on a page that has the submit button and no element with id
  \<open>recaptchaResponse\<close>. No request leaves the page, however the token acquisition goes.
  If the token promise fulfils (with a token, or with the empty string once the polls are
  used up), line 65 throws a \<open>TypeError\<close> before the form data is collected: the rest of
  the call is the \<open>catch\<close> block on that error. Then, and also when the token promise
  rejects with an error object, \<open>handleSubmit\<close> returns after calling \<open>showStatus\<close> with
  the generic error message (displayed where the page has the status region), the submit
  control is back in its enabled look and the form is as it was.
\<close>

theorem missing_token_input:
  assumes "form s = Some f" and "checkValidity f" and "\<not> honeypotChecked f"
    and "submitButton s = Some b" and "recaptchaResponse s = None"
  shows "requests (snd (handleSubmit env s)) = requests s
       \<and> (\<forall>token. fst (getRecaptchaToken env s) = Token token \<longrightarrow>
            handleSubmit env s =
              catchBlock typeError (snd (getRecaptchaToken env (snd (enter s)))))
       \<and> ((\<exists>token. fst (getRecaptchaToken env s) = Token token)
            \<or> (\<exists>msg. fst (getRecaptchaToken env s) = TokenRejected (ErrorObject msg)) \<longrightarrow>
            fst (handleSubmit env s) = Returned
            \<and> statusDiv (snd (handleSubmit env s)) =
                map_option (shown errorMessage ''error'') (statusDiv s)
            \<and> idleControl (snd (handleSubmit env s))
            \<and> form (snd (handleSubmit env s)) = Some f)"
proof -
  from handleSubmit_loading [OF assms(1-4)]
  obtain s1 where e: "enter s = (Awaiting, s1)" and h: "handleSubmit env s = tryBlock env s1"
    by blast
  obtain r s2 where g: "getRecaptchaToken env s1 = (r, s2)"
    by (cases "getRecaptchaToken env s1")
  have r: "fst (getRecaptchaToken env s) = r"
    using getRecaptchaToken_result [of env s s1] g by simp
  have n1: "recaptchaResponse s1 = None"
    using enter_loading(3) [OF e] assms(5) by simp
  have f2: "form s2 = Some f" and b2: "submitButton s2 \<noteq> None"
    and n2: "recaptchaResponse s2 = None"
    using getRecaptchaToken_frame(1-3) [of env s1] g enter_loading(1-3) [OF e] assms(1,5)
    by auto
  have d2: "map_option (shown errorMessage ''error'') (statusDiv s2)
              = map_option (shown errorMessage ''error'') (statusDiv s)"
    using getRecaptchaToken_frame(5) [of errorMessage "''error''" env s1] g
      enter_loading(5) [OF e]
    by (simp add: option.map_comp comp_def)
  have 1: "requests (snd (handleSubmit env s)) = requests s"
    using awaitFetch_not_reached [OF n1, of env] h enter_loading(4) [OF e] by simp
  have 2: "handleSubmit env s = catchBlock typeError s2" if "r = Token token" for token
    using that h g n2 by (simp add: tryBlock_def afterToken_def split_beta)
  have 3: "handleSubmit env s = catchBlock (ErrorObject msg) s2"
    if "r = TokenRejected (ErrorObject msg)" for msg
    using that h g by (simp add: tryBlock_def)
  have 4: "fst (catchBlock (ErrorObject msg) s2) = Returned
         \<and> statusDiv (snd (catchBlock (ErrorObject msg) s2)) =
             map_option (shown errorMessage ''error'') (statusDiv s)
         \<and> idleControl (snd (catchBlock (ErrorObject msg) s2))
         \<and> form (snd (catchBlock (ErrorObject msg) s2)) = Some f" for msg
    using b2 d2 f2 by (simp add: catchBlock_ErrorObject catchBlock_control catchBlock_fields)
  from e g have s2: "snd (getRecaptchaToken env (snd (enter s))) = s2"
    by simp
  show ?thesis
    using 1 2 3 4 4 [of "''TypeError''"] r s2 by (auto simp: typeError_def)
qed

theorem missing_token_input_witness:
  "form (exampleHandler\<lparr>recaptchaResponse := None\<rparr>) = Some exampleForm
   \<and> checkValidity exampleForm
   \<and> \<not> honeypotChecked exampleForm
   \<and> submitButton (exampleHandler\<lparr>recaptchaResponse := None\<rparr>) = Some exampleButton
   \<and> recaptchaResponse (exampleHandler\<lparr>recaptchaResponse := None\<rparr>) = None
   \<and> fst (getRecaptchaToken readyEnv (exampleHandler\<lparr>recaptchaResponse := None\<rparr>)) = Token ''tok''
   \<and> requests (snd (handleSubmit readyEnv (exampleHandler\<lparr>recaptchaResponse := None\<rparr>)))
       = requests (exampleHandler\<lparr>recaptchaResponse := None\<rparr>)
   \<and> fst (handleSubmit readyEnv (exampleHandler\<lparr>recaptchaResponse := None\<rparr>)) = Returned
   \<and> statusDiv (snd (handleSubmit readyEnv (exampleHandler\<lparr>recaptchaResponse := None\<rparr>))) =
       map_option (shown errorMessage ''error'')
         (statusDiv (exampleHandler\<lparr>recaptchaResponse := None\<rparr>))
   \<and> idleControl (snd (handleSubmit readyEnv (exampleHandler\<lparr>recaptchaResponse := None\<rparr>)))"
proof -
  have f: "form (exampleHandler\<lparr>recaptchaResponse := None\<rparr>) = Some exampleForm"
    and b: "submitButton (exampleHandler\<lparr>recaptchaResponse := None\<rparr>) = Some exampleButton"
    and n: "recaptchaResponse (exampleHandler\<lparr>recaptchaResponse := None\<rparr>) = None"
    by (simp_all add: exampleHandler_eq)
  from missing_token_input [OF f example_validity(1) example_honeypot(1) b n, of readyEnv]
       f example_validity(1) example_honeypot(1) b n
       example_token [of "exampleHandler\<lparr>recaptchaResponse := None\<rparr>"]
  show ?thesis
    by blast
qed

text \<open>
  Claim C10 as it is worded promises the error message and the restored control for every
  such submission. Three pages and environments where it does not come to that: the
  provider's promise never settles, and the attempt stays suspended at line 64 with the
  control disabled and the status region hidden; the page has no \<open>formStatus\<close> element,
  and nothing is displayed; the provider's promise rejects with \<open>null\<close>, and the
  \<open>catch\<close> block itself throws at line 93 before it sets the status.
\<close>

theorem missing_token_input_without_message:
  "checkValidity exampleForm
   \<and> \<not> honeypotChecked exampleForm
   \<and> recaptchaResponse (exampleHandler\<lparr>recaptchaResponse := None\<rparr>) = None
   \<and> fst (handleSubmit stalledEnv (exampleHandler\<lparr>recaptchaResponse := None\<rparr>)) = Hung
   \<and> map_option disabled
       (submitButton (snd (handleSubmit stalledEnv (exampleHandler\<lparr>recaptchaResponse := None\<rparr>))))
       = Some True
   \<and> map_option display
       (statusDiv (snd (handleSubmit stalledEnv (exampleHandler\<lparr>recaptchaResponse := None\<rparr>))))
       = Some ''none''
   \<and> statusDiv (snd (handleSubmit readyEnv
                       (exampleHandler\<lparr>recaptchaResponse := None, statusDiv := None\<rparr>))) = None
   \<and> fst (handleSubmit nullRejectEnv (exampleHandler\<lparr>recaptchaResponse := None\<rparr>))
       = Threw typeError
   \<and> statusDiv (snd (handleSubmit nullRejectEnv (exampleHandler\<lparr>recaptchaResponse := None\<rparr>)))
       = Some exampleStatus"
  by (simp add: example_validity example_honeypot)
     (simp add: run_defs typeError_def readyEnv_def stalledEnv_def nullRejectEnv_def
      exampleForm_def exampleButton_def exampleStatus_def elapse_statusDiv)

end
